theory Spec2Isabelle
  imports Main "HOL-Library.Word"
begin

unbundle bit_operations_syntax

section \<open>The credential vault and deep-link handshake of the pinac workspace\<close>

text \<open>
  The development embeds the Electron main module (window handling, IPC handlers,
  single-instance lock, deep-link callback) and \<open>SecureMasterKeyManager\<close>.
  Source functions are state transformers over a \<open>world\<close>: the disk, the random
  source, the token store, the window and the list of effects a user, an operator or the
  OS can observe. A JavaScript exception is the left injection of a sum.

  Strings are lists of 8-bit characters read as UTF-8 bytes; \<open>trim\<close> is exact on
  well-formed UTF-8, the other library models below (URL, percent-decoding, JSON) on
  ASCII text. What they leave out is said at each definition.
\<close>

subsection \<open>Errors and values\<close>

text \<open>
  An exception is its class and its message. \<open>PlainError\<close> is \<open>new Error(msg)\<close>,
  \<open>SystemError\<close> an error of \<open>fs\<close> with its code, \<open>VaultError\<close> one thrown by
  the token manager. The messages \<open>Invalid URL\<close> and \<open>URI malformed\<close> are Node's;
  the message of a \<open>SyntaxError\<close> of \<open>JSON.parse\<close> and of the \<open>TypeError\<close> of
  reading a property of \<open>null\<close> depends on the input and the engine, and one fixed
  text stands for it.
\<close>

datatype js_error =
    TypeError string
  | SyntaxError string
  | URIError string
  | PlainError string
  | SystemError string
  | VaultError string

type_synonym 'a result = "js_error + 'a"

text \<open>
  A JavaScript value as \<open>JSON.parse\<close> produces it, and \<open>undefined\<close> for a property
  that is not there. A number is carried as its literal: its IEEE-754 value is not modelled.
\<close>

datatype jsval =
    JUndefined
  | JNull
  | JBool bool
  | JNum string
  | JStr string
  | JArr "jsval list"
  | JObj "(string \<times> jsval) list"

subsection \<open>Characters, hex and \<open>trim\<close>\<close>

definition is_digit :: "char \<Rightarrow> bool" where
  "is_digit c = (48 \<le> (of_char c :: nat) \<and> (of_char c :: nat) \<le> 57)"

definition is_lower :: "char \<Rightarrow> bool" where
  "is_lower c = (97 \<le> (of_char c :: nat) \<and> (of_char c :: nat) \<le> 122)"

definition is_upper :: "char \<Rightarrow> bool" where
  "is_upper c = (65 \<le> (of_char c :: nat) \<and> (of_char c :: nat) \<le> 90)"

definition is_alpha :: "char \<Rightarrow> bool" where
  "is_alpha c = (is_lower c \<or> is_upper c)"

definition to_lower :: "char \<Rightarrow> char" where
  "to_lower c = (if is_upper c then char_of ((of_char c :: nat) + 32) else c)"

definition hex_digit :: "nat \<Rightarrow> char" where
  "hex_digit n = (if n < 10 then char_of (48 + n) else char_of (87 + n))"

definition hex_val :: "char \<Rightarrow> nat option" where
  "hex_val c =
     (let n = (of_char c :: nat) in
      if is_digit c then Some (n - 48)
      else if 97 \<le> n \<and> n \<le> 102 then Some (n - 87)
      else if 65 \<le> n \<and> n \<le> 70 then Some (n - 55)
      else None)"

text \<open>\<open>Buffer.toString("hex")\<close>: two lowercase hex digits per byte.\<close>

definition to_hex :: "8 word list \<Rightarrow> string" where
  "to_hex bs = concat (map (\<lambda>b. [hex_digit (unat b div 16), hex_digit (unat b mod 16)]) bs)"

text \<open>
  Well-formed UTF-8 (RFC 3629): the byte strings that are the encoding of a JavaScript
  string without lone surrogates. Reading a file as \<open>utf8\<close> gives the string with
  these bytes exactly when the content is well-formed.
\<close>

definition is_cont :: "nat \<Rightarrow> bool" where
  "is_cont y = (0x80 \<le> y \<and> y \<le> 0xBF)"

fun utf8_valid :: "string \<Rightarrow> bool" where
  "utf8_valid [] = True"
| "utf8_valid (a # s) =
     (let x = (of_char a :: nat) in
      if x < 0x80 then utf8_valid s
      else
        (case s of
           [] \<Rightarrow> False
         | b # s1 \<Rightarrow>
             (let y = (of_char b :: nat) in
              if 0xC2 \<le> x \<and> x \<le> 0xDF then is_cont y \<and> utf8_valid s1
              else
                (case s1 of
                   [] \<Rightarrow> False
                 | c # s2 \<Rightarrow>
                     (let z = (of_char c :: nat) in
                      if x = 0xE0 then 0xA0 \<le> y \<and> y \<le> 0xBF \<and> is_cont z \<and> utf8_valid s2
                      else if (0xE1 \<le> x \<and> x \<le> 0xEC) \<or> x = 0xEE \<or> x = 0xEF
                        then is_cont y \<and> is_cont z \<and> utf8_valid s2
                      else if x = 0xED then 0x80 \<le> y \<and> y \<le> 0x9F \<and> is_cont z \<and> utf8_valid s2
                      else
                        (case s2 of
                           [] \<Rightarrow> False
                         | d # s3 \<Rightarrow>
                             (let u = (of_char d :: nat) in
                              if x = 0xF0
                                then 0x90 \<le> y \<and> y \<le> 0xBF \<and> is_cont z \<and> is_cont u \<and> utf8_valid s3
                              else if 0xF1 \<le> x \<and> x \<le> 0xF3
                                then is_cont y \<and> is_cont z \<and> is_cont u \<and> utf8_valid s3
                              else if x = 0xF4
                                then 0x80 \<le> y \<and> y \<le> 0x8F \<and> is_cont z \<and> is_cont u \<and> utf8_valid s3
                              else False)))))))"

text \<open>
  \<open>String.prototype.trim\<close> removes white space and line terminators from both ends:
  the ASCII ones (tab, LF, VT, FF, CR, space) and, as their UTF-8 bytes, U+00A0, U+1680,
  U+2000 to U+200A, U+2028, U+2029, U+202F, U+205F, U+3000 and U+FEFF. On the bytes of a
  well-formed string a lead byte is never a continuation byte, so matching the byte
  sequences from either end finds exactly these characters.
\<close>

definition is_space :: "char \<Rightarrow> bool" where
  "is_space c = ((9 \<le> (of_char c :: nat) \<and> (of_char c :: nat) \<le> 13) \<or> (of_char c :: nat) = 32)"

definition is_space2 :: "char \<Rightarrow> char \<Rightarrow> bool" where
  "is_space2 a b = (a = CHR 0xC2 \<and> b = CHR 0xA0)"

definition is_space3 :: "char \<Rightarrow> char \<Rightarrow> char \<Rightarrow> bool" where
  "is_space3 a b c =
     ((a = CHR 0xE1 \<and> b = CHR 0x9A \<and> c = CHR 0x80)
      \<or> (a = CHR 0xE2 \<and> b = CHR 0x80
          \<and> ((0x80 \<le> (of_char c :: nat) \<and> (of_char c :: nat) \<le> 0x8A)
               \<or> c = CHR 0xA8 \<or> c = CHR 0xA9 \<or> c = CHR 0xAF))
      \<or> (a = CHR 0xE2 \<and> b = CHR 0x81 \<and> c = CHR 0x9F)
      \<or> (a = CHR 0xE3 \<and> b = CHR 0x80 \<and> c = CHR 0x80)
      \<or> (a = CHR 0xEF \<and> b = CHR 0xBB \<and> c = CHR 0xBF))"

fun trim_start :: "string \<Rightarrow> string" where
  "trim_start (a # b # c # s) =
     (if is_space3 a b c then trim_start s
      else if is_space2 a b then trim_start (c # s)
      else if is_space a then trim_start (b # c # s)
      else a # b # c # s)"
| "trim_start [a, b] =
     (if is_space2 a b then [] else if is_space a then trim_start [b] else [a, b])"
| "trim_start [a] = (if is_space a then [] else [a])"
| "trim_start [] = []"

text \<open>The same from the end, on the reversed string: \<open>c\<close> is the last byte.\<close>

fun trim_end_rev :: "string \<Rightarrow> string" where
  "trim_end_rev (c # b # a # s) =
     (if is_space3 a b c then trim_end_rev s
      else if is_space2 b c then trim_end_rev (a # s)
      else if is_space c then trim_end_rev (b # a # s)
      else c # b # a # s)"
| "trim_end_rev [c, b] =
     (if is_space2 b c then [] else if is_space c then trim_end_rev [b] else [c, b])"
| "trim_end_rev [c] = (if is_space c then [] else [c])"
| "trim_end_rev [] = []"

definition trim :: "string \<Rightarrow> string" where
  "trim s = rev (trim_end_rev (rev (trim_start s)))"

subsection \<open>The disk\<close>

text \<open>
  A path is its list of components, so \<open>path.join(dir, name)\<close> is \<open>dir @ [name]\<close>
  and the containing directory is \<open>butlast\<close>. A node is a directory or a regular file
  with its content and permission bits. \<open>faulty\<close> marks the paths on which the
  operating system refuses an operation (\<open>EACCES\<close>): it is how a run with failing I/O
  is given to the model.
\<close>

type_synonym path = "string list"

datatype node = Dir | File string "16 word"

record filesystem =
  nodes :: "path \<Rightarrow> node option"
  faulty :: "path \<Rightarrow> bool"
  umask :: "16 word"

definition path_join :: "path \<Rightarrow> string \<Rightarrow> path" where
  "path_join dir name = dir @ [name]"

definition is_dir :: "filesystem \<Rightarrow> path \<Rightarrow> bool" where
  "is_dir fs p = (p = [] \<or> nodes fs p = Some Dir)"

definition existsSync :: "path \<Rightarrow> filesystem \<Rightarrow> bool" where
  "existsSync p fs = (p = [] \<or> nodes fs p \<noteq> None)"

definition readFileSync :: "path \<Rightarrow> filesystem \<Rightarrow> string result" where
  "readFileSync p fs =
     (case nodes fs p of
        None \<Rightarrow> Inl (SystemError (if p = [] then ''EISDIR'' else ''ENOENT''))
      | Some Dir \<Rightarrow> Inl (SystemError ''EISDIR'')
      | Some (File content m) \<Rightarrow>
          if faulty fs p then Inl (SystemError ''EACCES'') else Inr content)"

text \<open>
  \<open>mkdirSync(p, {recursive: true})\<close> walks the prefixes of \<open>p\<close>, shortest first: an
  existing directory is kept, a missing one is created, a regular file in the way fails.
  Directories made before a failure stay.
\<close>

fun mkdir_each :: "path list \<Rightarrow> filesystem \<Rightarrow> unit result \<times> filesystem" where
  "mkdir_each [] fs = (Inr (), fs)"
| "mkdir_each (p # ps) fs =
     (case nodes fs p of
        Some Dir \<Rightarrow> mkdir_each ps fs
      | Some (File content m) \<Rightarrow> (Inl (SystemError (if ps = [] then ''EEXIST'' else ''ENOTDIR'')), fs)
      | None \<Rightarrow>
          if faulty fs p then (Inl (SystemError ''EACCES''), fs)
          else mkdir_each ps (fs\<lparr>nodes := (nodes fs)(p \<mapsto> Dir)\<rparr>))"

definition ancestors_and_self :: "path \<Rightarrow> path list" where
  "ancestors_and_self p = map (\<lambda>n. take n p) [1..<Suc (length p)]"

definition mkdirSync_recursive :: "path \<Rightarrow> filesystem \<Rightarrow> unit result \<times> filesystem" where
  "mkdirSync_recursive p fs = mkdir_each (ancestors_and_self p) fs"

text \<open>
  \<open>writeFileSync(p, data, {mode})\<close>: the mode (less the umask) is given to a file the
  call creates; a file that is already there keeps its own.
\<close>

definition writeFileSync :: "path \<Rightarrow> string \<Rightarrow> 16 word \<Rightarrow> filesystem \<Rightarrow> unit result \<times> filesystem" where
  "writeFileSync p data mode fs =
     (if p = [] then (Inl (SystemError ''EISDIR''), fs)
      else if \<not> is_dir fs (butlast p) then (Inl (SystemError ''ENOENT''), fs)
      else
        (case nodes fs p of
           Some Dir \<Rightarrow> (Inl (SystemError ''EISDIR''), fs)
         | Some (File old m) \<Rightarrow>
             if faulty fs p then (Inl (SystemError ''EACCES''), fs)
             else (Inr (), fs\<lparr>nodes := (nodes fs)(p \<mapsto> File data m)\<rparr>)
         | None \<Rightarrow>
             if faulty fs p then (Inl (SystemError ''EACCES''), fs)
             else (Inr (), fs\<lparr>nodes := (nodes fs)(p \<mapsto> File data (mode AND NOT (umask fs)))\<rparr>)))"

text \<open>The system call behind \<open>fs.unlink\<close>; its error goes to the caller's callback.\<close>

definition unlink_now :: "path \<Rightarrow> filesystem \<Rightarrow> unit result \<times> filesystem" where
  "unlink_now p fs =
     (case nodes fs p of
        None \<Rightarrow> (Inl (SystemError (if p = [] then ''EISDIR'' else ''ENOENT'')), fs)
      | Some Dir \<Rightarrow> (Inl (SystemError ''EISDIR''), fs)
      | Some (File content m) \<Rightarrow>
          if faulty fs p then (Inl (SystemError ''EACCES''), fs)
          else (Inr (), fs\<lparr>nodes := (nodes fs)(p := None)\<rparr>))"

subsection \<open>The world\<close>

record window =
  minimized :: bool
  focused :: bool

datatype effect =
    ErrorBox string string
  | ConsoleError string js_error
  | WindowRestore
  | WindowFocus
  | WindowReload
  | SetAsDefaultProtocolClient string "string list"
  | AppQuit

text \<open>
  What the main module registers with the runtime: a call of one of the four
  \<open>register...Handlers\<close> functions of the IPC modules (which are not among the sources
  and are recorded by name), a subscription \<open>app.on(event, ...)\<close>, an
  \<open>ipcMain.handle(channel, ...)\<close>, and \<open>app.whenReady().then(f)\<close>.
\<close>

datatype registration =
    HandlerModule string
  | AppOn string
  | IpcHandle string
  | WhenReadyThen string

text \<open>
  \<open>vault\<close>, \<open>store_fails\<close>, \<open>clear_fails\<close> and \<open>undeletable\<close> belong to
  the token manager (below). \<open>entropy\<close> is the stream of bytes \<open>crypto.randomBytes\<close> will deliver.
  \<open>lock_free\<close> says that no other instance holds the single-instance lock;
  \<open>defaultApp\<close> and \<open>argv\<close> are \<open>process.defaultApp\<close> and \<open>process.argv\<close>.
  \<open>pending_unlinks\<close> are the \<open>fs.unlink\<close> requests handed to the thread pool and
  not yet run. \<open>effects\<close> lists dialogs, console output, window operations and
  application-level calls, oldest first; \<open>registered\<close> lists the handlers registered
  with the runtime, oldest first.
\<close>

record world =
  userData :: path
  disk :: filesystem
  entropy :: "nat \<Rightarrow> 8 word"
  vault :: "string \<Rightarrow> (string \<times> jsval) option"
  store_fails :: "string \<Rightarrow> jsval \<Rightarrow> bool"
  clear_fails :: bool
  undeletable :: "string list"
  mainWindow :: "window option"
  lock_free :: bool
  defaultApp :: bool
  argv :: "string list"
  pending_unlinks :: "path list"
  effects :: "effect list"
  registered :: "registration list"

definition register :: "registration \<Rightarrow> world \<Rightarrow> world" where
  "register r w = w\<lparr>registered := registered w @ [r]\<rparr>"

definition emit :: "effect \<Rightarrow> world \<Rightarrow> world" where
  "emit e w = w\<lparr>effects := effects w @ [e]\<rparr>"

definition console_error :: "string \<Rightarrow> js_error \<Rightarrow> world \<Rightarrow> world" where
  "console_error msg err w = emit (ConsoleError msg err) w"

definition randomBytes :: "nat \<Rightarrow> world \<Rightarrow> 8 word list \<times> world" where
  "randomBytes n w = (map (entropy w) [0..<n], w\<lparr>entropy := (\<lambda>i. entropy w (i + n))\<rparr>)"

subsection \<open>SecureMasterKeyManager\<close>

definition KEY_FILE_NAME :: string where
  "KEY_FILE_NAME = ''app-secret.key''"

definition generateMasterKey :: "nat \<Rightarrow> world \<Rightarrow> string \<times> world" where
  "generateMasterKey len w = (case randomBytes len w of (bytes, w') \<Rightarrow> (to_hex bytes, w'))"

text \<open>The body of the \<open>try\<close> block of \<open>getPersistentMasterKey\<close>.\<close>

definition getPersistentMasterKey_try :: "world \<Rightarrow> string result \<times> world" where
  "getPersistentMasterKey_try w =
     (let userDataPath = userData w;
          keyFilePath = path_join userDataPath KEY_FILE_NAME
      in if existsSync keyFilePath (disk w)
         then (case readFileSync keyFilePath (disk w) of
                 Inl e \<Rightarrow> (Inl e, w)
               | Inr content \<Rightarrow> (Inr (trim content), w))
         else
           (case generateMasterKey 64 w of
              (newMasterKey, w1) \<Rightarrow>
                (case mkdirSync_recursive userDataPath (disk w1) of
                   (Inl e, d2) \<Rightarrow> (Inl e, w1\<lparr>disk := d2\<rparr>)
                 | (Inr u, d2) \<Rightarrow>
                     (case writeFileSync keyFilePath newMasterKey 0x180 d2 of
                        (Inl e, d3) \<Rightarrow> (Inl e, w1\<lparr>disk := d3\<rparr>)
                      | (Inr u', d3) \<Rightarrow> (Inr newMasterKey, w1\<lparr>disk := d3\<rparr>)))))"

definition getPersistentMasterKey :: "world \<Rightarrow> string result \<times> world" where
  "getPersistentMasterKey w =
     (case getPersistentMasterKey_try w of
        (Inr key, w') \<Rightarrow> (Inr key, w')
      | (Inl error, w') \<Rightarrow>
          (Inl (PlainError ''Could not generate or retrieve master key''),
           console_error ''Failed to manage master key:'' error w'))"

text \<open>
  \<open>crypto.pbkdf2Sync\<close> is a parameter: password, salt, iterations, key length and
  digest name to the derived bytes. \<open>salt || "default-app-salt"\<close> takes the default for
  an absent salt and for the empty string, the only falsy string.
\<close>

type_synonym kdf = "string \<Rightarrow> string \<Rightarrow> nat \<Rightarrow> nat \<Rightarrow> string \<Rightarrow> 8 word list"

definition deriveMasterKey :: "kdf \<Rightarrow> string \<Rightarrow> string option \<Rightarrow> string" where
  "deriveMasterKey pbkdf2Sync masterKey salt =
     (let finalSalt = (case salt of
                         None \<Rightarrow> ''default-app-salt''
                       | Some s \<Rightarrow> if s = [] then ''default-app-salt'' else s);
          iterations = 100000;
          keyLength = 64
      in to_hex (pbkdf2Sync masterKey finalSalt iterations keyLength ''sha512''))"

text \<open>
  The salt of line 37 by itself, \<open>salt || "default-app-salt"\<close>, for the statements
  that name the arguments PBKDF2 is called with.
\<close>

definition finalSalt :: "string option \<Rightarrow> string" where
  "finalSalt salt = (case salt of
                       None \<Rightarrow> ''default-app-salt''
                     | Some s \<Rightarrow> if s = [] then ''default-app-salt'' else s)"

subsection \<open>Percent-decoding and URLs\<close>

fun split_on :: "char \<Rightarrow> string \<Rightarrow> string list" where
  "split_on sep [] = [[]]"
| "split_on sep (c # cs) =
     (if c = sep then [] # split_on sep cs
      else (case split_on sep cs of [] \<Rightarrow> [[c]] | piece # pieces \<Rightarrow> (c # piece) # pieces))"

text \<open>
  The lenient percent-decoding of the URL standard: an escape \<open>%XY\<close> becomes the byte
  it names, a \<open>%\<close> that starts no escape stays. The bytes are not checked to be UTF-8
  (the standard replaces an ill-formed sequence by U+FFFD).
\<close>

fun percent_decode :: "string \<Rightarrow> string" where
  "percent_decode [] = []"
| "percent_decode [c] = [c]"
| "percent_decode [c, d] = [c, d]"
| "percent_decode (c # h1 # h2 # cs) =
     (if c = CHR ''%'' then
        (case (hex_val h1, hex_val h2) of
           (Some a, Some b) \<Rightarrow> char_of (16 * a + b) # percent_decode cs
         | _ \<Rightarrow> c # percent_decode (h1 # h2 # cs))
      else c # percent_decode (h1 # h2 # cs))"

text \<open>
  \<open>decodeURIComponent\<close>: every \<open>%\<close> must start an escape, else \<open>URIError\<close>. The
  decoded bytes are not checked to be UTF-8 (the function throws on an ill-formed
  sequence too).
\<close>

fun decodeURIComponent :: "string \<Rightarrow> string result" where
  "decodeURIComponent [] = Inr []"
| "decodeURIComponent (c # cs) =
     (if c = CHR ''%'' then
        (case cs of
           h1 # h2 # rest \<Rightarrow>
             (case (hex_val h1, hex_val h2) of
                (Some a, Some b) \<Rightarrow>
                  (case decodeURIComponent rest of
                     Inl e \<Rightarrow> Inl e
                   | Inr r \<Rightarrow> Inr (char_of (16 * a + b) # r))
              | _ \<Rightarrow> Inl (URIError ''URI malformed''))
         | _ \<Rightarrow> Inl (URIError ''URI malformed''))
      else (case decodeURIComponent cs of Inl e \<Rightarrow> Inl e | Inr r \<Rightarrow> Inr (c # r)))"

text \<open>
  \<open>new URL(input)\<close> without a base. Of the URL standard the model keeps what the
  handler reads: leading and trailing C0 controls and spaces are stripped, tabs and
  newlines removed, a scheme (a letter, then letters, digits, \<open>+\<close>, \<open>-\<close>, \<open>.\<close>,
  then \<open>:\<close>) is required, the fragment starts at the first \<open>#\<close> and the query at the
  first \<open>?\<close> before it. Without a scheme the constructor throws \<open>TypeError\<close>. The
  validation of host and port is left out, so the model accepts some inputs that the
  standard refuses.
\<close>

record URL =
  protocol :: string
  body :: string
  search :: string
  hash :: string

definition is_c0_or_space :: "char \<Rightarrow> bool" where
  "is_c0_or_space c = ((of_char c :: nat) \<le> 32)"

definition is_tab_or_newline :: "char \<Rightarrow> bool" where
  "is_tab_or_newline c = ((of_char c :: nat) = 9 \<or> (of_char c :: nat) = 10 \<or> (of_char c :: nat) = 13)"

definition is_scheme_char :: "char \<Rightarrow> bool" where
  "is_scheme_char c = (is_alpha c \<or> is_digit c \<or> c = CHR ''+'' \<or> c = CHR ''-'' \<or> c = CHR ''.'')"

definition new_URL :: "string \<Rightarrow> URL result" where
  "new_URL input =
     (let s0 = rev (dropWhile is_c0_or_space (rev (dropWhile is_c0_or_space input)));
          s = filter (\<lambda>c. \<not> is_tab_or_newline c) s0;
          sch = takeWhile is_scheme_char s;
          after = dropWhile is_scheme_char s
      in case (sch, after) of
           (c # cs, d # rest) \<Rightarrow>
             if is_alpha c \<and> d = CHR '':'' then
               (let before_hash = takeWhile (\<lambda>x. x \<noteq> CHR ''#'') rest;
                    frag = dropWhile (\<lambda>x. x \<noteq> CHR ''#'') rest
                in Inr \<lparr>protocol = map to_lower sch @ '':'',
                        body = takeWhile (\<lambda>x. x \<noteq> CHR ''?'') before_hash,
                        search = dropWhile (\<lambda>x. x \<noteq> CHR ''?'') before_hash,
                        hash = frag\<rparr>)
             else Inl (TypeError ''Invalid URL'')
         | _ \<Rightarrow> Inl (TypeError ''Invalid URL''))"

text \<open>
  \<open>url.searchParams.get(name)\<close>: the query without its \<open>?\<close> is cut at \<open>&\<close>, empty
  pieces are dropped, each piece is cut at its first \<open>=\<close>, \<open>+\<close> becomes a space and
  both sides are percent-decoded; the first pair with the name gives the value,
  \<open>None\<close> is JavaScript's \<open>null\<close>.
\<close>

definition form_decode :: "string \<Rightarrow> string" where
  "form_decode s = percent_decode (map (\<lambda>c. if c = CHR ''+'' then CHR '' '' else c) s)"

definition query_pairs :: "string \<Rightarrow> (string \<times> string) list" where
  "query_pairs q =
     map (\<lambda>piece. (form_decode (takeWhile (\<lambda>x. x \<noteq> CHR ''='') piece),
                    form_decode (drop 1 (dropWhile (\<lambda>x. x \<noteq> CHR ''='') piece))))
       (filter (\<lambda>piece. piece \<noteq> []) (split_on CHR ''&'' (drop 1 q)))"

definition searchParams_get :: "URL \<Rightarrow> string \<Rightarrow> string option" where
  "searchParams_get u name = map_of (query_pairs (search u)) name"

subsection \<open>JSON\<close>

text \<open>
  \<open>JSON.parse\<close> in two passes, each a single left-to-right run: characters to tokens,
  tokens to a value over a stack of open arrays and objects. A \<open>\\u\<close> escape is stored
  as the UTF-8 bytes of its code unit (a surrogate pair is not joined). A repeated key
  keeps its first position and takes the last value.
\<close>

datatype token =
    LBrace | RBrace | LBracket | RBracket | Colon | Comma
  | TString string | TNumber string | TTrue | TFalse | TNull

datatype lex_mode =
    Idle
  | InString string
  | InEscape string
  | InUnicode string "nat list"
  | InNumber string
  | InWord string

definition is_json_space :: "char \<Rightarrow> bool" where
  "is_json_space c = ((of_char c :: nat) = 9 \<or> (of_char c :: nat) = 10 \<or> (of_char c :: nat) = 13 \<or> (of_char c :: nat) = 32)"

definition punctuation :: "char \<Rightarrow> token option" where
  "punctuation c =
     (if c = CHR 0x7B then Some LBrace else if c = CHR 0x7D then Some RBrace
      else if c = CHR 0x5B then Some LBracket else if c = CHR 0x5D then Some RBracket
      else if c = CHR 0x3A then Some Colon else if c = CHR 0x2C then Some Comma
      else None)"

definition word_token :: "string \<Rightarrow> token option" where
  "word_token s =
     (if s = ''true'' then Some TTrue else if s = ''false'' then Some TFalse
      else if s = ''null'' then Some TNull else None)"

definition is_number_char :: "char \<Rightarrow> bool" where
  "is_number_char c =
     (is_digit c \<or> c = CHR ''-'' \<or> c = CHR ''+'' \<or> c = CHR ''.'' \<or> c = CHR ''e'' \<or> c = CHR ''E'')"

definition valid_exponent :: "string \<Rightarrow> bool" where
  "valid_exponent r =
     (case r of
        [] \<Rightarrow> True
      | c # cs \<Rightarrow>
          (c = CHR ''e'' \<or> c = CHR ''E'') \<and>
          (let ds = (case cs of [] \<Rightarrow> [] | s # t \<Rightarrow> if s = CHR ''+'' \<or> s = CHR ''-'' then t else cs)
           in ds \<noteq> [] \<and> list_all is_digit ds))"

definition valid_fraction :: "string \<Rightarrow> bool" where
  "valid_fraction r =
     (case r of
        [] \<Rightarrow> True
      | c # cs \<Rightarrow>
          if c = CHR ''.'' then takeWhile is_digit cs \<noteq> [] \<and> valid_exponent (dropWhile is_digit cs)
          else valid_exponent r)"

definition valid_number :: "string \<Rightarrow> bool" where
  "valid_number s =
     (let u = (case s of [] \<Rightarrow> [] | c # cs \<Rightarrow> if c = CHR ''-'' then cs else s);
          ip = takeWhile is_digit u
      in ip \<noteq> [] \<and> (length ip = 1 \<or> hd ip \<noteq> CHR ''0'') \<and> valid_fraction (dropWhile is_digit u))"

definition unescape :: "char \<Rightarrow> char option" where
  "unescape c =
     (if c = CHR 0x22 \<or> c = CHR 0x5C \<or> c = CHR ''/'' then Some c
      else if c = CHR ''b'' then Some (CHR 0x08)
      else if c = CHR ''f'' then Some (CHR 0x0C)
      else if c = CHR ''n'' then Some (CHR 0x0A)
      else if c = CHR ''r'' then Some (CHR 0x0D)
      else if c = CHR ''t'' then Some (CHR 0x09)
      else None)"

definition utf8_encode :: "nat \<Rightarrow> string" where
  "utf8_encode n =
     (if n < 0x80 then [char_of n]
      else if n < 0x800 then [char_of (0xC0 + n div 64), char_of (0x80 + n mod 64)]
      else [char_of (0xE0 + n div 4096), char_of (0x80 + (n div 64) mod 64), char_of (0x80 + n mod 64)])"

definition lex_idle :: "token list \<Rightarrow> char \<Rightarrow> (lex_mode \<times> token list) option" where
  "lex_idle toks c =
     (if is_json_space c then Some (Idle, toks)
      else (case punctuation c of
              Some t \<Rightarrow> Some (Idle, t # toks)
            | None \<Rightarrow>
                if c = CHR 0x22 then Some (InString [], toks)
                else if c = CHR ''-'' \<or> is_digit c then Some (InNumber [c], toks)
                else if is_lower c then Some (InWord [c], toks)
                else None))"

text \<open>One character; the tokens and the text of the open token are kept newest first.\<close>

fun lex_step :: "lex_mode \<Rightarrow> token list \<Rightarrow> char \<Rightarrow> (lex_mode \<times> token list) option" where
  "lex_step Idle toks c = lex_idle toks c"
| "lex_step (InString acc) toks c =
     (if c = CHR 0x22 then Some (Idle, TString (rev acc) # toks)
      else if c = CHR 0x5C then Some (InEscape acc, toks)
      else if (of_char c :: nat) < 32 then None
      else Some (InString (c # acc), toks))"
| "lex_step (InEscape acc) toks c =
     (case unescape c of
        Some d \<Rightarrow> Some (InString (d # acc), toks)
      | None \<Rightarrow> if c = CHR ''u'' then Some (InUnicode acc [], toks) else None)"
| "lex_step (InUnicode acc ds) toks c =
     (case hex_val c of
        None \<Rightarrow> None
      | Some d \<Rightarrow>
          if length ds = 3
          then Some (InString (rev (utf8_encode (foldl (\<lambda>n x. 16 * n + x) 0 (ds @ [d]))) @ acc), toks)
          else Some (InUnicode acc (ds @ [d]), toks))"
| "lex_step (InNumber acc) toks c =
     (if is_number_char c then Some (InNumber (c # acc), toks)
      else if valid_number (rev acc) then lex_idle (TNumber (rev acc) # toks) c
      else None)"
| "lex_step (InWord acc) toks c =
     (if is_lower c then Some (InWord (c # acc), toks)
      else (case word_token (rev acc) of
              Some t \<Rightarrow> lex_idle (t # toks) c
            | None \<Rightarrow> None))"

fun lex_end :: "lex_mode \<Rightarrow> token list \<Rightarrow> token list option" where
  "lex_end Idle toks = Some (rev toks)"
| "lex_end (InNumber acc) toks =
     (if valid_number (rev acc) then Some (rev (TNumber (rev acc) # toks)) else None)"
| "lex_end (InWord acc) toks =
     (case word_token (rev acc) of Some t \<Rightarrow> Some (rev (t # toks)) | None \<Rightarrow> None)"
| "lex_end (InString acc) toks = None"
| "lex_end (InEscape acc) toks = None"
| "lex_end (InUnicode acc ds) toks = None"

fun lex :: "lex_mode \<Rightarrow> token list \<Rightarrow> string \<Rightarrow> token list option" where
  "lex m toks [] = lex_end m toks"
| "lex m toks (c # cs) =
     (case lex_step m toks c of
        None \<Rightarrow> None
      | Some (m', toks') \<Rightarrow> lex m' toks' cs)"

datatype frame =
    ArrFrame "jsval list"
  | ObjFrame "(string \<times> jsval) list" "string option"

datatype expect =
    WantValue | WantValueOrEnd | WantKeyOrEnd | WantKey | WantColon | AfterValue
  | Done jsval

definition obj_put :: "string \<Rightarrow> jsval \<Rightarrow> (string \<times> jsval) list \<Rightarrow> (string \<times> jsval) list" where
  "obj_put k v ms =
     (if map_of ms k = None then ms @ [(k, v)]
      else map (\<lambda>(k', v'). if k' = k then (k', v) else (k', v')) ms)"

fun deliver :: "jsval \<Rightarrow> frame list \<Rightarrow> (expect \<times> frame list) option" where
  "deliver v [] = Some (Done v, [])"
| "deliver v (ArrFrame es # st) = Some (AfterValue, ArrFrame (es @ [v]) # st)"
| "deliver v (ObjFrame ms (Some k) # st) = Some (AfterValue, ObjFrame (obj_put k v ms) None # st)"
| "deliver v (ObjFrame ms None # st) = None"

fun close_array :: "frame list \<Rightarrow> (expect \<times> frame list) option" where
  "close_array (ArrFrame es # st) = deliver (JArr es) st"
| "close_array st = None"

fun close_object :: "frame list \<Rightarrow> (expect \<times> frame list) option" where
  "close_object (ObjFrame ms None # st) = deliver (JObj ms) st"
| "close_object st = None"

fun set_key :: "string \<Rightarrow> frame list \<Rightarrow> (expect \<times> frame list) option" where
  "set_key k (ObjFrame ms None # st) = Some (WantColon, ObjFrame ms (Some k) # st)"
| "set_key k st = None"

fun open_value :: "token \<Rightarrow> frame list \<Rightarrow> (expect \<times> frame list) option" where
  "open_value (TString s) st = deliver (JStr s) st"
| "open_value (TNumber n) st = deliver (JNum n) st"
| "open_value TTrue st = deliver (JBool True) st"
| "open_value TFalse st = deliver (JBool False) st"
| "open_value TNull st = deliver JNull st"
| "open_value LBracket st = Some (WantValueOrEnd, ArrFrame [] # st)"
| "open_value LBrace st = Some (WantKeyOrEnd, ObjFrame [] None # st)"
| "open_value t st = None"

fun after_comma :: "frame list \<Rightarrow> (expect \<times> frame list) option" where
  "after_comma (ArrFrame es # st) = Some (WantValue, ArrFrame es # st)"
| "after_comma (ObjFrame ms k # st) = Some (WantKey, ObjFrame ms k # st)"
| "after_comma [] = None"

fun parse_step :: "expect \<Rightarrow> frame list \<Rightarrow> token \<Rightarrow> (expect \<times> frame list) option" where
  "parse_step WantValue st t = open_value t st"
| "parse_step WantValueOrEnd st t = (if t = RBracket then close_array st else open_value t st)"
| "parse_step WantKeyOrEnd st t =
     (case t of TString k \<Rightarrow> set_key k st | RBrace \<Rightarrow> close_object st | _ \<Rightarrow> None)"
| "parse_step WantKey st t = (case t of TString k \<Rightarrow> set_key k st | _ \<Rightarrow> None)"
| "parse_step WantColon st t = (if t = Colon then Some (WantValue, st) else None)"
| "parse_step AfterValue st t =
     (case t of
        Comma \<Rightarrow> after_comma st
      | RBracket \<Rightarrow> close_array st
      | RBrace \<Rightarrow> close_object st
      | _ \<Rightarrow> None)"
| "parse_step (Done v) st t = None"

fun parse_tokens :: "expect \<Rightarrow> frame list \<Rightarrow> token list \<Rightarrow> jsval option" where
  "parse_tokens e st [] = (case e of Done v \<Rightarrow> Some v | _ \<Rightarrow> None)"
| "parse_tokens e st (t # ts) =
     (case parse_step e st t of
        None \<Rightarrow> None
      | Some (e', st') \<Rightarrow> parse_tokens e' st' ts)"

definition JSON_parse :: "string \<Rightarrow> jsval result" where
  "JSON_parse text =
     (case lex Idle [] text of
        None \<Rightarrow> Inl (SyntaxError ''Unexpected token in JSON'')
      | Some toks \<Rightarrow>
          (case parse_tokens WantValue [] toks of
             None \<Rightarrow> Inl (SyntaxError ''Unexpected token in JSON'')
           | Some v \<Rightarrow> Inr v))"

text \<open>
  \<open>JSON.stringify\<close> of a value: a property whose value is \<open>undefined\<close> is left out,
  a number is written as its literal, properties come in insertion order.
\<close>

definition escape_char :: "char \<Rightarrow> string" where
  "escape_char c =
     (if c = CHR 0x22 then [CHR 0x5C, CHR 0x22]
      else if c = CHR 0x5C then [CHR 0x5C, CHR 0x5C]
      else if c = CHR 0x08 then [CHR 0x5C, CHR ''b'']
      else if c = CHR 0x0C then [CHR 0x5C, CHR ''f'']
      else if c = CHR 0x0A then [CHR 0x5C, CHR ''n'']
      else if c = CHR 0x0D then [CHR 0x5C, CHR ''r'']
      else if c = CHR 0x09 then [CHR 0x5C, CHR ''t'']
      else if (of_char c :: nat) < 32
        then [CHR 0x5C, CHR ''u'', CHR ''0'', CHR ''0'',
              hex_digit ((of_char c :: nat) div 16), hex_digit ((of_char c :: nat) mod 16)]
      else [c])"

definition quote :: "string \<Rightarrow> string" where
  "quote s = CHR 0x22 # concat (map escape_char s) @ [CHR 0x22]"

fun commas :: "string list \<Rightarrow> string" where
  "commas [] = []"
| "commas [x] = x"
| "commas (x # y # ys) = x @ '','' @ commas (y # ys)"

fun JSON_stringify :: "jsval \<Rightarrow> string"
  and stringify_elements :: "jsval list \<Rightarrow> string list"
  and stringify_members :: "(string \<times> jsval) list \<Rightarrow> string list" where
  "JSON_stringify JUndefined = ''null''"
| "JSON_stringify JNull = ''null''"
| "JSON_stringify (JBool b) = (if b then ''true'' else ''false'')"
| "JSON_stringify (JNum n) = n"
| "JSON_stringify (JStr s) = quote s"
| "JSON_stringify (JArr xs) = ''['' @ commas (stringify_elements xs) @ '']''"
| "JSON_stringify (JObj ms) = ''{'' @ commas (stringify_members ms) @ ''}''"
| "stringify_elements [] = []"
| "stringify_elements (x # xs) = JSON_stringify x # stringify_elements xs"
| "stringify_members [] = []"
| "stringify_members ((k, v) # ms) =
     (if v = JUndefined then stringify_members ms
      else (quote k @ '':'' @ JSON_stringify v) # stringify_members ms)"

text \<open>
  Reading a property: \<open>null\<close> and \<open>undefined\<close> throw, an object gives the member or
  \<open>undefined\<close>, every other value gives \<open>undefined\<close> for the names used here (none is
  a built-in property of a string, number, boolean or array).
\<close>

definition own_property :: "(string \<times> jsval) list \<Rightarrow> string \<Rightarrow> jsval" where
  "own_property ms name = (case map_of ms name of Some x \<Rightarrow> x | None \<Rightarrow> JUndefined)"

definition get_prop :: "jsval \<Rightarrow> string \<Rightarrow> jsval result" where
  "get_prop v name =
     (case v of
        JNull \<Rightarrow> Inl (TypeError ''Cannot read properties of null'')
      | JUndefined \<Rightarrow> Inl (TypeError ''Cannot read properties of undefined'')
      | JObj ms \<Rightarrow> Inr (own_property ms name)
      | _ \<Rightarrow> Inr JUndefined)"

subsection \<open>SecureTokenManager\<close>

text \<open>
  Modelled from the spec: the class \<open>SecureTokenManager\<close> (\<open>utils/tokenManager\<close>) is
  imported by the main module and is not among the sources. Section 4.2 of the
  specification gives its contract: constructed with one derived key; \<open>storeToken\<close>
  writes the entry of a name, overwriting, or fails on an I/O failure; \<open>hasToken\<close> is an
  existence check that does not decrypt; \<open>retrieveToken\<close> gives the plaintext, or
  not-found, or a decryption error when the entry was written under another key;
  \<open>clearAllTokens\<close> deletes every entry, best effort: an entry whose deletion fails
  is logged and stays, and the call goes on and returns normally. Encryption is ideal:
  an entry is the pair of the key it was written under and the value. Which calls fail
  is the environment's choice: \<open>store_fails\<close> for a store, \<open>undeletable\<close> (the names
  whose deletion fails) for a single deletion, and \<open>clear_fails\<close> for a
  \<open>clearAllTokens\<close> that throws as a whole; the main module guards both calls with
  \<open>try\<close>. The value is a \<open>jsval\<close> because the main module passes properties of the
  parsed payload unchecked.
\<close>

text \<open>Modelled from the spec: the manager holds the one derived key it was constructed with.\<close>

record tokenManager =
  encryptionKey :: string

text \<open>Modelled from the spec: the constructor \<open>new SecureTokenManager(derivedKey)\<close>.\<close>

definition new_SecureTokenManager :: "string \<Rightarrow> tokenManager" where
  "new_SecureTokenManager derivedKey = \<lparr>encryptionKey = derivedKey\<rparr>"

text \<open>
  Modelled from the spec: \<open>storeToken(name, plaintext)\<close> overwrites the entry of the name
  or fails with a write error and changes nothing.
\<close>

definition storeToken :: "tokenManager \<Rightarrow> string \<Rightarrow> jsval \<Rightarrow> world \<Rightarrow> unit result \<times> world" where
  "storeToken tm name plaintext w =
     (if store_fails w name plaintext then (Inl (VaultError ''VaultWriteError''), w)
      else (Inr (), w\<lparr>vault := (vault w)(name \<mapsto> (encryptionKey tm, plaintext))\<rparr>))"

text \<open>Modelled from the spec: \<open>hasToken(name)\<close>, an existence check without decryption.\<close>

definition hasToken :: "tokenManager \<Rightarrow> string \<Rightarrow> world \<Rightarrow> bool" where
  "hasToken tm name w = (vault w name \<noteq> None)"

text \<open>
  Modelled from the spec: \<open>retrieveToken(name)\<close> gives not-found (\<open>Inr None\<close>), the
  plaintext, or a decryption error for an entry written under another key.
\<close>

definition retrieveToken :: "tokenManager \<Rightarrow> string \<Rightarrow> world \<Rightarrow> jsval option result" where
  "retrieveToken tm name w =
     (case vault w name of
        None \<Rightarrow> Inr None
      | Some (k, plaintext) \<Rightarrow>
          if k = encryptionKey tm then Inr (Some plaintext)
          else Inl (VaultError ''VaultDecryptError''))"

text \<open>
  Modelled from the spec: \<open>clearAllTokens()\<close> is a best-effort deletion of every entry
  (sections 4.2 and 7). Every entry whose deletion does not fail is removed; an entry
  whose deletion fails stays and the failure is logged, once per name; the call then
  returns normally. When no deletion fails, \<open>hasToken\<close> is false for every name
  afterwards. The spec names no failure of the call as a whole; the \<open>catch\<close> block
  of the logout handler (lines 77 to 80) runs only when the call throws, so the
  environment may also make the call throw, and such a call deletes nothing.
\<close>

definition clearAllTokens :: "tokenManager \<Rightarrow> world \<Rightarrow> unit result \<times> world" where
  "clearAllTokens tm w =
     (if clear_fails w then (Inl (VaultError ''VaultClearError''), w)
      else
        (Inr (),
         fold (\<lambda>name. console_error ''Failed to delete token:'' (VaultError name))
           (filter (\<lambda>name. vault w name \<noteq> None) (remdups (undeletable w)))
           (w\<lparr>vault := (\<lambda>name. if name \<in> set (undeletable w) then vault w name else None)\<rparr>)))"

subsection \<open>The main module\<close>

text \<open>
  Module evaluation, statement by statement in the order of the file: the four IPC
  modules register their handlers (lines 26 to 29); the module subscribes to
  \<open>window-all-closed\<close> and \<open>activate\<close> (lines 42 to 53); the master key is loaded,
  the key derived and the token manager built (lines 61 to 64); \<open>check-auth\<close> and
  \<open>logout\<close> are registered (lines 67 to 81); the protocol client is registered (lines
  84 to 92); \<open>initWindow\<close> is queued for the ready event (lines 94 to 96); the
  single-instance lock is requested, and the process either asks to quit or subscribes
  to \<open>second-instance\<close> (lines 99 to 119); last, on either path, the module subscribes
  to \<open>open-url\<close> (lines 122 to 125). An exception ends the evaluation. The result is
  the token manager and \<open>gotTheLock\<close>. The handlers themselves follow; when the
  runtime calls them is not part of the module.
\<close>

definition module_prelude :: "world \<Rightarrow> world" where
  "module_prelude w =
     fold register
       [HandlerModule ''registerUserHandlers'', HandlerModule ''registerFileHandlers'',
        HandlerModule ''registerAiHandlers'', HandlerModule ''registerSettingsHandlers'',
        AppOn ''window-all-closed'', AppOn ''activate''] w"

text \<open>
  \<open>app.setAsDefaultProtocolClient\<close>: the effect records the protocol and, for a
  development launch, the script argument \<open>process.argv[1]\<close> (before
  \<open>path.resolve\<close>); the executable path is left out.
\<close>

definition register_protocol :: "world \<Rightarrow> world" where
  "register_protocol w =
     (if defaultApp w then
        (if length (argv w) \<ge> 2
         then emit (SetAsDefaultProtocolClient ''pinac-workspace'' [argv w ! 1]) w
         else w)
      else emit (SetAsDefaultProtocolClient ''pinac-workspace'' []) w)"

definition requestSingleInstanceLock :: "world \<Rightarrow> bool \<times> world" where
  "requestSingleInstanceLock w = (lock_free w, w\<lparr>lock_free := False\<rparr>)"

definition main_module :: "kdf \<Rightarrow> world \<Rightarrow> (tokenManager \<times> bool) result \<times> world" where
  "main_module pbkdf2Sync w =
     (case getPersistentMasterKey (module_prelude w) of
        (Inl e, w1) \<Rightarrow> (Inl e, w1)
      | (Inr masterKey, w1) \<Rightarrow>
          (let derivedKey = deriveMasterKey pbkdf2Sync masterKey None;
               tokenManager = new_SecureTokenManager derivedKey;
               w2 = register (IpcHandle ''logout'') (register (IpcHandle ''check-auth'') w1);
               w3 = register_protocol w2;
               w4 = register (WhenReadyThen ''initWindow'') w3
           in case requestSingleInstanceLock w4 of
                (gotTheLock, w5) \<Rightarrow>
                  (let w6 = (if \<not> gotTheLock then emit AppQuit w5
                             else register (AppOn ''second-instance'') w5)
                   in (Inr (tokenManager, gotTheLock), register (AppOn ''open-url'') w6))))"

definition userInfoPath :: "world \<Rightarrow> path" where
  "userInfoPath w = path_join (userData w) ''user-info.json''"

definition check_auth :: "tokenManager \<Rightarrow> world \<Rightarrow> bool" where
  "check_auth tm w = hasToken tm ''idToken'' w"

text \<open>
  \<open>fs.unlink(path, () => {})\<close> hands the deletion to the thread pool and returns; the
  callback drops the outcome. \<open>run_pending_unlinks\<close> is the later moment at which the
  queued deletions have run.
\<close>

definition fs_unlink :: "path \<Rightarrow> world \<Rightarrow> world" where
  "fs_unlink p w = w\<lparr>pending_unlinks := pending_unlinks w @ [p]\<rparr>"

definition run_pending_unlinks :: "world \<Rightarrow> world" where
  "run_pending_unlinks w =
     w\<lparr>disk := fold (\<lambda>p d. snd (unlink_now p d)) (pending_unlinks w) (disk w),
       pending_unlinks := []\<rparr>"

definition logout :: "tokenManager \<Rightarrow> world \<Rightarrow> bool \<times> world" where
  "logout tm w =
     (let w1 = fs_unlink (userInfoPath w) w
      in case clearAllTokens tm w1 of
           (Inr u, w2) \<Rightarrow> (True, w2)
         | (Inl error, w2) \<Rightarrow> (False, console_error ''Logout failed'' error w2))"

definition showErrorBox :: "string \<Rightarrow> string \<Rightarrow> world \<Rightarrow> world" where
  "showErrorBox title content w = emit (ErrorBox title content) w"

definition reload :: "world \<Rightarrow> world" where
  "reload w = (case mainWindow w of None \<Rightarrow> w | Some win \<Rightarrow> emit WindowReload w)"

text \<open>One statement \<open>tokenManager.storeToken(name, authData[name])\<close>.\<close>

definition store_field :: "tokenManager \<Rightarrow> jsval \<Rightarrow> string \<Rightarrow> world \<Rightarrow> unit result \<times> world" where
  "store_field tm authData name w =
     (case get_prop authData name of
        Inl e \<Rightarrow> (Inl e, w)
      | Inr v \<Rightarrow> storeToken tm name v w)"

text \<open>The body of the \<open>try\<close> block of \<open>parseAuthDataFromUrl\<close>.\<close>

definition store_tokens_try :: "tokenManager \<Rightarrow> jsval \<Rightarrow> world \<Rightarrow> unit result \<times> world" where
  "store_tokens_try tm authData w =
     (case store_field tm authData ''idToken'' w of
        (Inl e, w1) \<Rightarrow> (Inl e, w1)
      | (Inr u1, w1) \<Rightarrow>
          (case store_field tm authData ''refreshToken'' w1 of
             (Inl e, w2) \<Rightarrow> (Inl e, w2)
           | (Inr u2, w2) \<Rightarrow>
               (case store_field tm authData ''webApiKey'' w2 of
                  (Inl e, w3) \<Rightarrow> (Inl e, w3)
                | (Inr u3, w3) \<Rightarrow> (Inr (), reload w3))))"

text \<open>The branch of \<open>parseAuthDataFromUrl\<close> taken once the payload is parsed.\<close>

definition store_auth_data :: "tokenManager \<Rightarrow> jsval \<Rightarrow> world \<Rightarrow> unit result \<times> world" where
  "store_auth_data tm authData w =
     (case get_prop authData ''displayName'' of
        Inl e \<Rightarrow> (Inl e, w)
      | Inr displayName \<Rightarrow>
     (case get_prop authData ''email'' of
        Inl e \<Rightarrow> (Inl e, w)
      | Inr email \<Rightarrow>
     (case get_prop authData ''photoUrl'' of
        Inl e \<Rightarrow> (Inl e, w)
      | Inr photoUrl \<Rightarrow>
          (let userInfo = JObj [(''displayName'', displayName), (''email'', email),
                                (''bio'', JStr []), (''photoURL'', photoUrl)];
               userInfoJson = JSON_stringify userInfo
           in case writeFileSync (userInfoPath w) userInfoJson 0x1B6 (disk w) of
                (Inl e, d) \<Rightarrow> (Inl e, w\<lparr>disk := d\<rparr>)
              | (Inr u, d) \<Rightarrow>
                  (case store_tokens_try tm authData (w\<lparr>disk := d\<rparr>) of
                     (Inr u', w') \<Rightarrow> (Inr (), w')
                   | (Inl error, w') \<Rightarrow>
                       (Inr (), console_error ''Token handling error:'' error w'))))))"

definition parseAuthDataFromUrl :: "tokenManager \<Rightarrow> string \<Rightarrow> world \<Rightarrow> unit result \<times> world" where
  "parseAuthDataFromUrl tm url w =
     (case new_URL url of
        Inl e \<Rightarrow> (Inl e, w)
      | Inr urlObj \<Rightarrow>
          (case searchParams_get urlObj ''data'' of
             None \<Rightarrow>
               (Inr (), showErrorBox ''Error''
                  ''Something went wrong, unable to authenticate. Please try again.'' w)
           | Some encodedData \<Rightarrow>
               if encodedData = [] then
                 (Inr (), showErrorBox ''Error''
                    ''Something went wrong, unable to authenticate. Please try again.'' w)
               else
                 (case decodeURIComponent encodedData of
                    Inl e \<Rightarrow> (Inl e, w)
                  | Inr decoded \<Rightarrow>
                      (case JSON_parse decoded of
                         Inl e \<Rightarrow> (Inl e, w)
                       | Inr authData \<Rightarrow> store_auth_data tm authData w))))"

text \<open>
  The \<open>second-instance\<close> handler of the primary instance. \<open>commandLine.pop()\<close> is the
  last argument, \<open>undefined\<close> for an empty list; \<open>if (url)\<close> also refuses the empty
  string.
\<close>

definition restore_and_focus :: "world \<Rightarrow> world" where
  "restore_and_focus w =
     (case mainWindow w of
        None \<Rightarrow> w
      | Some win \<Rightarrow>
          (let w1 = (if minimized win
                     then emit WindowRestore (w\<lparr>mainWindow := Some (win\<lparr>minimized := False\<rparr>)\<rparr>)
                     else w)
           in emit WindowFocus
                (w1\<lparr>mainWindow := map_option (\<lambda>x. x\<lparr>focused := True\<rparr>) (mainWindow w1)\<rparr>)))"

definition second_instance :: "tokenManager \<Rightarrow> string list \<Rightarrow> world \<Rightarrow> unit result \<times> world" where
  "second_instance tm commandLine w =
     (let w1 = restore_and_focus w
      in case commandLine of
           [] \<Rightarrow>
             (Inr (), showErrorBox ''Error''
                ''Something went wrong, unable to authenticate. Please try again.'' w1)
         | arg # args \<Rightarrow>
             (let url = last commandLine
              in if url \<noteq> [] then parseAuthDataFromUrl tm url w1
                 else (Inr (), showErrorBox ''Error''
                         ''Something went wrong, unable to authenticate. Please try again.'' w1)))"

text \<open>The \<open>open-url\<close> handler (macOS).\<close>

definition open_url :: "tokenManager \<Rightarrow> string \<Rightarrow> world \<Rightarrow> unit result \<times> world" where
  "open_url tm url w = parseAuthDataFromUrl tm url w"

subsection \<open>Example worlds\<close>

text \<open>
  Concrete inputs for the witnesses and counterexamples: a stand-in for PBKDF2; a first launch
  with an empty data directory; an installation whose key file holds \<open>00ff17\<close> between
  spaces, and one whose key file starts with a byte order mark; the running primary
  instance with a minimised window; a logged-in instance; and variants with one fault
  each.
\<close>

definition example_kdf :: kdf where
  "example_kdf password salt iterations keyLength digest =
     take keyLength (map (\<lambda>c. of_nat (of_char c)) (password @ salt @ digest) @ replicate keyLength 0)"

definition example_disk :: filesystem where
  "example_disk = \<lparr>nodes = [[''home''] \<mapsto> Dir], faulty = (\<lambda>p. False), umask = 0x12\<rparr>"

definition fresh_install :: world where
  "fresh_install =
     \<lparr>userData = [''home'', ''pinac-workspace''], disk = example_disk,
      entropy = (\<lambda>i. of_nat (7 * i + 3)), vault = (\<lambda>name. None),
      store_fails = (\<lambda>name v. False), clear_fails = False, undeletable = [],
      mainWindow = None, lock_free = True, defaultApp = False,
      argv = [''pinac-workspace''], pending_unlinks = [], effects = [], registered = []\<rparr>"

definition installed_disk :: filesystem where
  "installed_disk =
     \<lparr>nodes = [[''home''] \<mapsto> Dir, [''home'', ''pinac-workspace''] \<mapsto> Dir,
               [''home'', ''pinac-workspace'', ''app-secret.key''] \<mapsto> File '' 00ff17 '' 0x180],
      faulty = (\<lambda>p. False), umask = 0x12\<rparr>"

definition installed :: world where
  "installed = fresh_install\<lparr>disk := installed_disk\<rparr>"

definition bom_key :: world where
  "bom_key =
     installed\<lparr>disk := installed_disk\<lparr>nodes := (nodes installed_disk)
        ([''home'', ''pinac-workspace'', ''app-secret.key''] \<mapsto>
           File ([CHR 0xEF, CHR 0xBB, CHR 0xBF] @ ''00ff17'' @ [CHR 0x0A]) 0x180)\<rparr>\<rparr>"

definition unreadable_key :: world where
  "unreadable_key =
     installed\<lparr>disk := installed_disk\<lparr>faulty := (\<lambda>p. p = [''home'', ''pinac-workspace'', ''app-secret.key''])\<rparr>\<rparr>"

definition second_launch :: world where
  "second_launch = fresh_install\<lparr>lock_free := False\<rparr>"

definition example_tm :: tokenManager where
  "example_tm = new_SecureTokenManager (deriveMasterKey example_kdf ''00ff17'' None)"

definition running :: world where
  "running = installed\<lparr>mainWindow := Some \<lparr>minimized = True, focused = False\<rparr>, lock_free := False\<rparr>"

definition id_store_broken :: world where
  "id_store_broken = running\<lparr>store_fails := (\<lambda>name v. name = ''idToken'')\<rparr>"

definition logged_in_disk :: filesystem where
  "logged_in_disk =
     \<lparr>nodes = [[''home''] \<mapsto> Dir, [''home'', ''pinac-workspace''] \<mapsto> Dir,
               [''home'', ''pinac-workspace'', ''app-secret.key''] \<mapsto> File '' 00ff17 '' 0x180,
               [''home'', ''pinac-workspace'', ''user-info.json''] \<mapsto> File ''{}'' 0x1A4],
      faulty = (\<lambda>p. False), umask = 0x12\<rparr>"

definition logged_in :: world where
  "logged_in = running\<lparr>disk := logged_in_disk,
                       vault := [''idToken'' \<mapsto> (encryptionKey example_tm, JStr ''abc'')]\<rparr>"

definition stuck_token :: world where
  "stuck_token = logged_in\<lparr>undeletable := [''idToken'']\<rparr>"

definition locked_profile :: world where
  "locked_profile =
     logged_in\<lparr>disk := logged_in_disk\<lparr>faulty := (\<lambda>p. p = [''home'', ''pinac-workspace'', ''user-info.json''])\<rparr>\<rparr>"

text \<open>
  The callback URL of the end-to-end scenario; its payload is
  \<open>{"displayName":"Jane","idToken":"abc"}\<close>.
\<close>

definition jane_url :: string where
  "jane_url = ''appname://auth?data=%7B%22displayName%22%3A%22Jane%22%2C%22idToken%22%3A%22abc%22%7D''"

definition jane_payload :: string where
  "jane_payload = percent_decode ''%7B%22displayName%22%3A%22Jane%22%2C%22idToken%22%3A%22abc%22%7D''"

text \<open>A callback URL with the payload \<open>{"idToken":"a","refreshToken":"r","webApiKey":"k"}\<close>.\<close>

definition three_tokens_url :: string where
  "three_tokens_url = ''pinac-workspace://auth?data=%7B%22idToken%22%3A%22a%22%2C%22refreshToken%22%3A%22r%22%2C%22webApiKey%22%3A%22k%22%7D''"

definition three_tokens_payload :: string where
  "three_tokens_payload = percent_decode ''%7B%22idToken%22%3A%22a%22%2C%22refreshToken%22%3A%22r%22%2C%22webApiKey%22%3A%22k%22%7D''"

section \<open>Auxiliary facts\<close>

subsection \<open>The disk and the key file\<close>

lemma mkdir_each_ok:
  "\<forall>q\<in>set ps. nodes fs q = Some Dir \<or> (nodes fs q = None \<and> \<not> faulty fs q) \<Longrightarrow>
   \<exists>fs'. mkdir_each ps fs = (Inr (), fs') \<and> faulty fs' = faulty fs \<and> umask fs' = umask fs
      \<and> (\<forall>q. nodes fs' q = (if q \<in> set ps then Some Dir else nodes fs q))"
proof (induction ps arbitrary: fs)
  case Nil
  then show ?case by simp
next
  case (Cons p ps)
  show ?case
  proof (cases "nodes fs p")
    case None
    let ?fs1 = "fs\<lparr>nodes := (nodes fs)(p \<mapsto> Dir)\<rparr>"
    from Cons.prems None have nf: "\<not> faulty fs p" by auto
    have "\<forall>q\<in>set ps. nodes ?fs1 q = Some Dir \<or> (nodes ?fs1 q = None \<and> \<not> faulty ?fs1 q)"
      using Cons.prems by auto
    from Cons.IH[OF this] obtain fs' where
      "mkdir_each ps ?fs1 = (Inr (), fs')" "faulty fs' = faulty fs" "umask fs' = umask fs"
      "\<forall>q. nodes fs' q = (if q \<in> set ps then Some Dir else nodes ?fs1 q)" by auto
    then show ?thesis using None nf by auto
  next
    case (Some n)
    with Cons.prems have d: "n = Dir" by auto
    have "\<forall>q\<in>set ps. nodes fs q = Some Dir \<or> (nodes fs q = None \<and> \<not> faulty fs q)"
      using Cons.prems by auto
    from Cons.IH[OF this] obtain fs' where
      "mkdir_each ps fs = (Inr (), fs')" "faulty fs' = faulty fs" "umask fs' = umask fs"
      "\<forall>q. nodes fs' q = (if q \<in> set ps then Some Dir else nodes fs q)" by auto
    then show ?thesis using Some d by auto
  qed
qed

lemma ancestors_shorter: "q \<in> set (ancestors_and_self p) \<Longrightarrow> length q \<le> length p \<and> q \<noteq> []"
  by (auto simp: ancestors_and_self_def)

lemma self_in_ancestors: "p \<noteq> [] \<Longrightarrow> p \<in> set (ancestors_and_self p)"
proof -
  assume "p \<noteq> []"
  then have "length p \<in> {1..<Suc (length p)}" by (cases p) auto
  moreover have "take (length p) p = p" by simp
  ultimately show ?thesis
    unfolding ancestors_and_self_def by (metis (no_types, lifting) image_eqI set_map set_upt)
qed

lemma ancestors_example:
  "ancestors_and_self [''home'', ''pinac-workspace''] = [[''home''], [''home'', ''pinac-workspace'']]"
  by (simp add: ancestors_and_self_def upt_rec)

lemma of_char_hex_digit: "n < 16 \<Longrightarrow> (of_char (hex_digit n) :: nat) = (if n < 10 then 48 + n else 87 + n)"
  by (simp add: hex_digit_def)

lemma hex_digit_inj: "n < 16 \<Longrightarrow> m < 16 \<Longrightarrow> hex_digit n = hex_digit m \<Longrightarrow> n = m"
proof -
  assume n: "n < 16" and m: "m < 16" and e: "hex_digit n = hex_digit m"
  from e have "(of_char (hex_digit n) :: nat) = of_char (hex_digit m)" by simp
  then show ?thesis using n m by (simp add: of_char_hex_digit split: if_splits)
qed

lemma hex_digits: "map hex_digit [0..<16] = ''0123456789abcdef''"
  by code_simp

lemma hex_digit_lower: "n < 16 \<Longrightarrow> hex_digit n \<in> set ''0123456789abcdef''"
  unfolding hex_digits[symmetric] by simp

lemma byte_nibbles: "unat (b :: 8 word) div 16 < 16 \<and> unat b mod 16 < 16"
proof -
  have "unat b < 2 ^ LENGTH(8)" by (rule unsigned_less)
  then have "unat b < 256" by simp
  then show ?thesis by simp
qed

lemma to_hex_Nil: "to_hex [] = []"
  by (simp add: to_hex_def)

lemma to_hex_Cons: "to_hex (b # bs) = hex_digit (unat b div 16) # hex_digit (unat b mod 16) # to_hex bs"
  by (simp add: to_hex_def)

lemma length_to_hex: "length (to_hex bs) = 2 * length bs"
  by (induction bs) (simp_all add: to_hex_Nil to_hex_Cons)

lemma to_hex_lower: "set (to_hex bs) \<subseteq> set ''0123456789abcdef''"
proof (induction bs)
  case Nil
  then show ?case by (simp add: to_hex_Nil)
next
  case (Cons b bs)
  have "hex_digit (unat b div 16) \<in> set ''0123456789abcdef''"
    "hex_digit (unat b mod 16) \<in> set ''0123456789abcdef''"
    using byte_nibbles[of b] hex_digit_lower by blast+
  then show ?case using Cons.IH unfolding to_hex_Cons by simp
qed

lemma to_hex_inj: "to_hex xs = to_hex ys \<Longrightarrow> xs = ys"
proof (induction xs arbitrary: ys)
  case Nil
  have "length (to_hex ys) = length (to_hex [])" using Nil by simp
  then show ?case by (simp add: length_to_hex)
next
  case (Cons x xs)
  have "length (to_hex ys) = length (to_hex (x # xs))" using Cons.prems by simp
  then obtain y ys' where ys: "ys = y # ys'" by (cases ys) (simp_all add: length_to_hex)
  from Cons.prems ys have
    h: "hex_digit (unat x div 16) = hex_digit (unat y div 16)"
    and l: "hex_digit (unat x mod 16) = hex_digit (unat y mod 16)"
    and r: "to_hex xs = to_hex ys'"
    by (simp_all add: to_hex_Cons)
  have "unat x div 16 = unat y div 16" "unat x mod 16 = unat y mod 16"
    using hex_digit_inj h l byte_nibbles[of x] byte_nibbles[of y] by blast+
  then have "unat x = unat y" by (metis div_mult_mod_eq)
  then have "x = y" by (simp add: word_unat_eq_iff)
  then show ?case using Cons.IH[OF r] ys by simp
qed

lemma hex_digit_plain: "n < 16 \<Longrightarrow> \<not> is_space (hex_digit n) \<and> (of_char (hex_digit n) :: nat) < 128"
  by (auto simp: hex_digit_def is_space_def)

lemma to_hex_plain: "c \<in> set (to_hex bs) \<Longrightarrow> \<not> is_space c \<and> (of_char c :: nat) < 128"
proof (induction bs)
  case Nil
  then show ?case by (simp add: to_hex_Nil)
next
  case (Cons b bs)
  then show ?case
    using byte_nibbles[of b] hex_digit_plain unfolding to_hex_Cons by auto
qed

lemma not_space2: "(of_char a :: nat) < 128 \<Longrightarrow> \<not> is_space2 a b"
  by (auto simp: is_space2_def)

lemma not_space3: "(of_char a :: nat) < 128 \<Longrightarrow> \<not> is_space3 a b c"
  by (auto simp: is_space3_def)

lemma not_space2_last: "(of_char c :: nat) < 128 \<Longrightarrow> \<not> is_space2 b c"
  by (auto simp: is_space2_def)

lemma not_space3_last: "(of_char c :: nat) < 128 \<Longrightarrow> \<not> is_space3 a b c"
  by (auto simp: is_space3_def)

lemma trim_start_plain:
  "(\<And>c. c \<in> set s \<Longrightarrow> \<not> is_space c \<and> (of_char c :: nat) < 128) \<Longrightarrow> trim_start s = s"
  by (cases s rule: trim_start.cases) (simp_all add: not_space2 not_space3)

lemma trim_end_rev_plain:
  "(\<And>c. c \<in> set s \<Longrightarrow> \<not> is_space c \<and> (of_char c :: nat) < 128) \<Longrightarrow> trim_end_rev s = s"
  by (cases s rule: trim_end_rev.cases) (simp_all add: not_space2_last not_space3_last)

lemma trim_to_hex: "trim (to_hex bs) = to_hex bs"
proof -
  have 1: "trim_start (to_hex bs) = to_hex bs"
    by (rule trim_start_plain) (rule to_hex_plain)
  have 2: "trim_end_rev (rev (to_hex bs)) = rev (to_hex bs)"
    by (rule trim_end_rev_plain) (simp add: to_hex_plain)
  show ?thesis by (simp add: trim_def 1 2)
qed

lemma trim_example: "trim '' 00ff17 '' = ''00ff17''"
  by code_simp

lemma trim_bom_example: "trim ([CHR 0xEF, CHR 0xBB, CHR 0xBF] @ ''00ff17'' @ [CHR 0x0A]) = ''00ff17''"
  by code_simp

lemma utf8_examples: "utf8_valid '' 00ff17 ''" "utf8_valid ([CHR 0xEF, CHR 0xBB, CHR 0xBF] @ ''00ff17'' @ [CHR 0x0A])"
  by code_simp+

text \<open>Mode \<open>0o600\<close> less any umask has no bit of group or others (\<open>0o077\<close>).\<close>

lemma owner_only: "((0x180 :: 16 word) AND NOT u) AND 0x3F = 0"
proof -
  have e: "(0x180 :: 16 word) AND 0x3F = 0" by simp
  have "((0x180 :: 16 word) AND NOT u) AND 0x3F = NOT u AND ((0x180 :: 16 word) AND 0x3F)"
    by (simp only: and.assoc and.commute and.left_commute)
  also have "\<dots> = 0" unfolding e by simp
  finally show ?thesis .
qed

lemma key_file_read:
  assumes "nodes (disk w) (path_join (userData w) KEY_FILE_NAME) = Some (File content m)"
    and "\<not> faulty (disk w) (path_join (userData w) KEY_FILE_NAME)"
  shows "getPersistentMasterKey w = (Inr (trim content), w)"
  using assms
  by (simp add: getPersistentMasterKey_def getPersistentMasterKey_try_def existsSync_def
      readFileSync_def Let_def)

lemma key_file_created:
  assumes absent: "nodes (disk w) (path_join (userData w) KEY_FILE_NAME) = None"
    and nf: "\<not> faulty (disk w) (path_join (userData w) KEY_FILE_NAME)"
    and dirs: "\<forall>q\<in>set (ancestors_and_self (userData w)).
           nodes (disk w) q = Some Dir \<or> (nodes (disk w) q = None \<and> \<not> faulty (disk w) q)"
  shows "\<exists>w'. getPersistentMasterKey w = (Inr (to_hex (map (entropy w) [0..<64])), w')
     \<and> nodes (disk w') (path_join (userData w) KEY_FILE_NAME)
         = Some (File (to_hex (map (entropy w) [0..<64])) (0x180 AND NOT (umask (disk w))))
     \<and> (0x180 AND NOT (umask (disk w))) AND 0x3F = 0
     \<and> is_dir (disk w') (userData w)
     \<and> (\<forall>q. q \<noteq> path_join (userData w) KEY_FILE_NAME \<and> q \<notin> set (ancestors_and_self (userData w))
            \<longrightarrow> nodes (disk w') q = nodes (disk w) q)
     \<and> vault w' = vault w \<and> effects w' = effects w
     \<and> getPersistentMasterKey w' = (Inr (to_hex (map (entropy w) [0..<64])), w')
     \<and> entropy w' = (\<lambda>i. entropy w (i + 64))"
proof -
  let ?kp = "path_join (userData w) KEY_FILE_NAME"
  let ?key = "to_hex (map (entropy w) [0..<64])"
  let ?w1 = "w\<lparr>entropy := (\<lambda>i. entropy w (i + 64))\<rparr>"
  have kp_ne: "?kp \<noteq> []" by (simp add: path_join_def)
  have bl: "butlast ?kp = userData w" by (simp add: path_join_def)
  have notin: "?kp \<notin> set (ancestors_and_self (userData w))"
    using ancestors_shorter[of ?kp "userData w"] by (auto simp: path_join_def)
  from mkdir_each_ok[OF dirs] obtain d2 where
    mk: "mkdirSync_recursive (userData w) (disk w) = (Inr (), d2)"
    and f2: "faulty d2 = faulty (disk w)" and u2: "umask d2 = umask (disk w)"
    and n2: "\<forall>q. nodes d2 q = (if q \<in> set (ancestors_and_self (userData w)) then Some Dir else nodes (disk w) q)"
    by (auto simp: mkdirSync_recursive_def)
  have d2kp: "nodes d2 ?kp = None" using n2 notin absent by simp
  have dir2: "is_dir d2 (userData w)"
    using n2 self_in_ancestors[of "userData w"] by (auto simp: is_dir_def)
  let ?d3 = "d2\<lparr>nodes := (nodes d2)(?kp \<mapsto> File ?key (0x180 AND NOT (umask d2)))\<rparr>"
  have wr: "writeFileSync ?kp ?key 0x180 d2 = (Inr (), ?d3)"
    using kp_ne bl dir2 d2kp nf f2 by (simp add: writeFileSync_def)
  let ?w' = "?w1\<lparr>disk := ?d3\<rparr>"
  have ex: "\<not> existsSync ?kp (disk w)" using absent kp_ne by (simp add: existsSync_def)
  have res: "getPersistentMasterKey w = (Inr ?key, ?w')"
    using ex mk wr
    by (simp add: getPersistentMasterKey_def getPersistentMasterKey_try_def Let_def
        generateMasterKey_def randomBytes_def)
  have dir3: "is_dir (disk ?w') (userData w)"
    using dir2 kp_ne by (auto simp: is_dir_def path_join_def)
  have again: "getPersistentMasterKey ?w' = (Inr ?key, ?w')"
    using key_file_read[of ?w' ?key "0x180 AND NOT (umask d2)"] nf f2
    by (simp add: trim_to_hex)
  show ?thesis
    apply (rule exI[of _ ?w'])
    using res dir3 again n2 u2 owner_only by simp
qed

lemma fresh_key: "to_hex (map (entropy fresh_install) [0..<64])
  = ''030a11181f262d343b424950575e656c737a81888f969da4abb2b9c0c7ced5dce3eaf1f8ff060d141b222930373e454c535a61686f767d848b9299a0a7aeb5bc''"
  by code_simp


lemma key_load_registered:
  "getPersistentMasterKey (w\<lparr>registered := r\<rparr>)
     = (fst (getPersistentMasterKey w), (snd (getPersistentMasterKey w))\<lparr>registered := r\<rparr>)"
  by (auto simp: getPersistentMasterKey_def getPersistentMasterKey_try_def Let_def
      generateMasterKey_def randomBytes_def console_error_def emit_def
      split: prod.splits sum.splits)

lemma module_prelude_eq:
  "module_prelude w =
     w\<lparr>registered := registered w @
        [HandlerModule ''registerUserHandlers'', HandlerModule ''registerFileHandlers'',
         HandlerModule ''registerAiHandlers'', HandlerModule ''registerSettingsHandlers'',
         AppOn ''window-all-closed'', AppOn ''activate'']\<rparr>"
  by (simp add: module_prelude_def register_def)

lemma key_load_frame:
  assumes "getPersistentMasterKey w = (r, w')"
  shows "vault w' = vault w \<and> pending_unlinks w' = pending_unlinks w \<and> lock_free w' = lock_free w
     \<and> defaultApp w' = defaultApp w \<and> argv w' = argv w \<and> registered w' = registered w
     \<and> (\<forall>k. r = Inr k \<longrightarrow> effects w' = effects w)
     \<and> (existsSync (path_join (userData w) KEY_FILE_NAME) (disk w) \<longrightarrow> disk w' = disk w)"
  using assms
  by (auto simp: getPersistentMasterKey_def getPersistentMasterKey_try_def Let_def
      generateMasterKey_def randomBytes_def console_error_def emit_def
      split: prod.splits sum.splits if_splits)

lemma main_module_key:
  assumes "nodes (disk w) (path_join (userData w) KEY_FILE_NAME) = Some (File content m)"
    and "\<not> faulty (disk w) (path_join (userData w) KEY_FILE_NAME)"
  shows "fst (main_module pbkdf2Sync w)
     = Inr (new_SecureTokenManager (deriveMasterKey pbkdf2Sync (trim content) None), lock_free w)"
  unfolding main_module_def module_prelude_eq key_load_registered key_file_read[OF assms]
  by (simp add: Let_def requestSingleInstanceLock_def register_protocol_def emit_def register_def)

lemma fold_console_error:
  "fold (\<lambda>name. console_error m (f name)) names w
     = w\<lparr>effects := effects w @ map (\<lambda>name. ConsoleError m (f name)) names\<rparr>"
  by (induction names arbitrary: w) (simp_all add: console_error_def emit_def)

lemma unlink_now_nodes:
  "faulty (snd (unlink_now p d)) = faulty d \<and>
   (\<forall>q. nodes (snd (unlink_now p d)) q =
      (if q = p \<and> \<not> faulty d q \<and> nodes d q \<noteq> None \<and> nodes d q \<noteq> Some Dir then None else nodes d q))"
  by (auto simp: unlink_now_def split: option.splits node.splits)

lemma fold_unlink_nodes:
  "faulty (fold (\<lambda>p d. snd (unlink_now p d)) ps d) = faulty d \<and>
   (\<forall>q. nodes (fold (\<lambda>p d. snd (unlink_now p d)) ps d) q =
      (if q \<in> set ps \<and> \<not> faulty d q \<and> nodes d q \<noteq> None \<and> nodes d q \<noteq> Some Dir then None else nodes d q))"
proof (induction ps arbitrary: d)
  case Nil
  then show ?case by simp
next
  case (Cons p ps)
  show ?case
    using Cons.IH[of "snd (unlink_now p d)"] unlink_now_nodes[of p d]
    by auto
qed

lemma write_profile_ok:
  assumes "is_dir fs (butlast p)" and "p \<noteq> []" and "nodes fs p \<noteq> Some Dir" and "\<not> faulty fs p"
  shows "\<exists>m. writeFileSync p content mode fs = (Inr (), fs\<lparr>nodes := (nodes fs)(p \<mapsto> File content m)\<rparr>)"
  using assms by (cases "nodes fs p") (auto simp: writeFileSync_def split: node.splits)

subsection \<open>The example URLs, evaluated\<close>

lemma jane_url_parsed: "new_URL jane_url =
   Inr \<lparr>protocol = ''appname:'', body = ''//auth'',
        search = ''?data=%7B%22displayName%22%3A%22Jane%22%2C%22idToken%22%3A%22abc%22%7D'', hash = []\<rparr>"
  by code_simp

lemma jane_data: "searchParams_get \<lparr>protocol = ''appname:'', body = ''//auth'',
        search = ''?data=%7B%22displayName%22%3A%22Jane%22%2C%22idToken%22%3A%22abc%22%7D'', hash = []\<rparr> ''data''
     = Some jane_payload"
  by code_simp

lemma jane_data_truthy: "jane_payload \<noteq> []"
  by code_simp

lemma jane_decoded: "decodeURIComponent jane_payload = Inr jane_payload"
  by code_simp

lemma jane_json: "JSON_parse jane_payload = Inr (JObj [(''displayName'', JStr ''Jane''), (''idToken'', JStr ''abc'')])"
  by code_simp

lemma jane_profile_text:
  "JSON_parse (JSON_stringify (JObj [(''displayName'', JStr ''Jane''), (''email'', JUndefined),
                                     (''bio'', JStr []), (''photoURL'', JUndefined)]))
   = Inr (JObj [(''displayName'', JStr ''Jane''), (''bio'', JStr [])])"
  by code_simp

lemma three_url_parsed: "new_URL three_tokens_url =
   Inr \<lparr>protocol = ''pinac-workspace:'', body = ''//auth'',
        search = ''?data=%7B%22idToken%22%3A%22a%22%2C%22refreshToken%22%3A%22r%22%2C%22webApiKey%22%3A%22k%22%7D'', hash = []\<rparr>"
  by code_simp

lemma three_data: "searchParams_get \<lparr>protocol = ''pinac-workspace:'', body = ''//auth'',
        search = ''?data=%7B%22idToken%22%3A%22a%22%2C%22refreshToken%22%3A%22r%22%2C%22webApiKey%22%3A%22k%22%7D'', hash = []\<rparr> ''data''
     = Some three_tokens_payload"
  by code_simp

lemma three_data_truthy: "three_tokens_payload \<noteq> []"
  by code_simp

lemma three_decoded: "decodeURIComponent three_tokens_payload = Inr three_tokens_payload"
  by code_simp

lemma three_json: "JSON_parse three_tokens_payload
   = Inr (JObj [(''idToken'', JStr ''a''), (''refreshToken'', JStr ''r''), (''webApiKey'', JStr ''k'')])"
  by code_simp

lemma not_a_url: "new_URL ''not a url'' = Inl (TypeError ''Invalid URL'')"
  by code_simp

lemma open_brace_url: "new_URL ''pinac-workspace://auth?data=%7B'' =
   Inr \<lparr>protocol = ''pinac-workspace:'', body = ''//auth'', search = ''?data=%7B'', hash = []\<rparr>"
  by code_simp

lemma open_brace_data: "searchParams_get
     \<lparr>protocol = ''pinac-workspace:'', body = ''//auth'', search = ''?data=%7B'', hash = []\<rparr> ''data''
   = Some ''{''"
  by code_simp

lemma open_brace_decoded: "decodeURIComponent ''{'' = Inr ''{''"
  by code_simp

lemma open_brace_json: "JSON_parse ''{'' = Inl (SyntaxError ''Unexpected token in JSON'')"
  by code_simp

lemma no_data_url: "new_URL ''pinac-workspace://auth'' =
   Inr \<lparr>protocol = ''pinac-workspace:'', body = ''//auth'', search = [], hash = []\<rparr>"
  by code_simp

lemma no_data_param: "searchParams_get
     \<lparr>protocol = ''pinac-workspace:'', body = ''//auth'', search = [], hash = []\<rparr> ''data'' = None"
  by code_simp

subsection \<open>The callback handler\<close>

lemma parse_reaches_store:
  assumes "new_URL url = Inr urlObj" and "searchParams_get urlObj ''data'' = Some encodedData"
    and "encodedData \<noteq> []" and "decodeURIComponent encodedData = Inr decoded"
    and "JSON_parse decoded = Inr authData"
  shows "parseAuthDataFromUrl tm url w = store_auth_data tm authData w"
  using assms by (simp add: parseAuthDataFromUrl_def)

lemma jane_store: "parseAuthDataFromUrl tm jane_url w =
    store_auth_data tm (JObj [(''displayName'', JStr ''Jane''), (''idToken'', JStr ''abc'')]) w"
  by (rule parse_reaches_store[OF jane_url_parsed jane_data jane_data_truthy jane_decoded jane_json])

lemma three_store: "parseAuthDataFromUrl tm three_tokens_url w =
    store_auth_data tm (JObj [(''idToken'', JStr ''a''), (''refreshToken'', JStr ''r''), (''webApiKey'', JStr ''k'')]) w"
  by (rule parse_reaches_store[OF three_url_parsed three_data three_data_truthy three_decoded three_json])

lemma running_profile_write:
  "writeFileSync (userInfoPath running) content 0x1B6 (disk running)
    = (Inr (), (disk running)\<lparr>nodes := (nodes (disk running))([''home'', ''pinac-workspace'', ''user-info.json''] \<mapsto> File content 0x1A4)\<rparr>)"
  by (simp add: writeFileSync_def running_def installed_def installed_disk_def fresh_install_def
      is_dir_def userInfoPath_def path_join_def)

lemma storeToken_effects: "effects (snd (storeToken tm name v w)) = effects w"
  by (simp add: storeToken_def)

lemma store_field_effects: "effects (snd (store_field tm a name w)) = effects w"
  by (simp add: store_field_def storeToken_effects split: sum.splits)

lemma reload_effects: "\<exists>es. effects (reload w) = effects w @ es"
  by (simp add: reload_def emit_def split: option.splits)

lemma store_tokens_try_effects: "\<exists>es. effects (snd (store_tokens_try tm a w)) = effects w @ es"
proof -
  obtain r1 w1 where 1: "store_field tm a ''idToken'' w = (r1, w1)"
    by (cases "store_field tm a ''idToken'' w")
  obtain r2 w2 where 2: "store_field tm a ''refreshToken'' w1 = (r2, w2)"
    by (cases "store_field tm a ''refreshToken'' w1")
  obtain r3 w3 where 3: "store_field tm a ''webApiKey'' w2 = (r3, w3)"
    by (cases "store_field tm a ''webApiKey'' w2")
  have e1: "effects w1 = effects w" using store_field_effects[of tm a "''idToken''" w] 1 by simp
  have e2: "effects w2 = effects w" using store_field_effects[of tm a "''refreshToken''" w1] 2 e1 by simp
  have e3: "effects w3 = effects w" using store_field_effects[of tm a "''webApiKey''" w2] 3 e2 by simp
  show ?thesis
    using 1 2 3 e1 e2 e3 reload_effects[of w3]
    by (auto simp: store_tokens_try_def split: sum.splits)
qed

lemma store_auth_data_effects: "\<exists>es. effects (snd (store_auth_data tm a w)) = effects w @ es"
proof (cases "get_prop a ''displayName''")
  case (Inl e)
  then show ?thesis by (simp add: store_auth_data_def)
next
  case (Inr dn)
  then obtain v2 v3 where g: "get_prop a ''email'' = Inr v2" "get_prop a ''photoUrl'' = Inr v3"
    by (auto simp: get_prop_def split: jsval.splits)
  let ?c = "JSON_stringify (JObj [(''displayName'', dn), (''email'', v2), (''bio'', JStr []), (''photoURL'', v3)])"
  obtain r d where wr: "writeFileSync (userInfoPath w) ?c 0x1B6 (disk w) = (r, d)"
    by (cases "writeFileSync (userInfoPath w) ?c 0x1B6 (disk w)")
  show ?thesis
  proof (cases r)
    case (Inl e)
    then show ?thesis using Inr g wr by (simp add: store_auth_data_def Let_def)
  next
    case ok: (Inr u)
    obtain r' w' where t: "store_tokens_try tm a (w\<lparr>disk := d\<rparr>) = (r', w')"
      by (cases "store_tokens_try tm a (w\<lparr>disk := d\<rparr>)")
    from store_tokens_try_effects[of tm a "w\<lparr>disk := d\<rparr>"] t
    obtain es where es: "effects w' = effects w @ es" by auto
    show ?thesis using Inr g wr ok t es
      by (cases r') (simp_all add: store_auth_data_def Let_def console_error_def emit_def)
  qed
qed

lemma parse_effects: "\<exists>es. effects (snd (parseAuthDataFromUrl tm url w)) = effects w @ es"
  using store_auth_data_effects
  by (auto simp: parseAuthDataFromUrl_def showErrorBox_def emit_def split: sum.splits option.splits)

lemma restore_and_focus_effects:
  "effects (restore_and_focus w) = effects w @
     (case mainWindow w of
        None \<Rightarrow> []
      | Some win \<Rightarrow> (if minimized win then [WindowRestore] else []) @ [WindowFocus])"
  by (simp add: restore_and_focus_def emit_def Let_def split: option.splits)

section \<open>The claims\<close>

subsection \<open>C1: malformed callback input\<close>

text \<open>
  C1. The claim: for an input that is not a URI, or whose \<open>data\<close> parameter is missing,
  or whose \<open>data\<close> value is not JSON, the callback handler only shows the generic failure
  dialog, never a raw parser exception, and leaves vault and profile unchanged. The code
  does so for the missing parameter only. For the input \<open>not a url\<close> the \<open>TypeError\<close>
  of \<open>new URL\<close> leaves the handler, and for \<open>pinac-workspace://auth?data=%7B\<close> the
  \<open>SyntaxError\<close> of \<open>JSON.parse\<close> does; in both runs no dialog is shown. The world is
  unchanged in all three runs, which is the part of the claim that holds.
\<close>

theorem parseAuthDataFromUrl_raw_exception:
  "parseAuthDataFromUrl tm ''not a url'' w = (Inl (TypeError ''Invalid URL''), w)
   \<and> parseAuthDataFromUrl tm ''pinac-workspace://auth?data=%7B'' w
       = (Inl (SyntaxError ''Unexpected token in JSON''), w)
   \<and> parseAuthDataFromUrl tm ''pinac-workspace://auth'' w
       = (Inr (), w\<lparr>effects := effects w @
            [ErrorBox ''Error'' ''Something went wrong, unable to authenticate. Please try again.'']\<rparr>)"
  by (simp add: parseAuthDataFromUrl_def not_a_url open_brace_url open_brace_data
      open_brace_decoded open_brace_json no_data_url no_data_param showErrorBox_def emit_def)

subsection \<open>C2: a failing token store\<close>

text \<open>
  C2, as amended. The claim: when storing one secret fails, the failure is logged and the
  handler still attempts the remaining secrets. The three stores stand in one \<open>try\<close>
  block, so the code does this instead: once the payload is parsed to an object and the
  profile is written, the first store that fails is logged, the stores after it and the
  reload are skipped, the handler returns normally, and the secrets stored before the
  failure stay in the vault. When no store fails all three are stored and the window is
  reloaded.
\<close>

theorem token_storage_stops_at_first_failure:
  assumes "new_URL url = Inr urlObj"
    and "searchParams_get urlObj ''data'' = Some encodedData"
    and "encodedData \<noteq> []"
    and "decodeURIComponent encodedData = Inr decoded"
    and "JSON_parse decoded = Inr (JObj ms)"
    and "writeFileSync (userInfoPath w)
           (JSON_stringify (JObj [(''displayName'', own_property ms ''displayName''),
                                  (''email'', own_property ms ''email''),
                                  (''bio'', JStr []),
                                  (''photoURL'', own_property ms ''photoUrl'')]))
           0x1B6 (disk w) = (Inr (), d)"
  shows
    "(store_fails w ''idToken'' (own_property ms ''idToken'') \<longrightarrow>
        parseAuthDataFromUrl tm url w =
          (Inr (), console_error ''Token handling error:'' (VaultError ''VaultWriteError'')
                     (w\<lparr>disk := d\<rparr>)))
   \<and> (\<not> store_fails w ''idToken'' (own_property ms ''idToken'')
        \<and> store_fails w ''refreshToken'' (own_property ms ''refreshToken'') \<longrightarrow>
        parseAuthDataFromUrl tm url w =
          (Inr (), console_error ''Token handling error:'' (VaultError ''VaultWriteError'')
                     (w\<lparr>disk := d,
                        vault := (vault w)(''idToken'' \<mapsto> (encryptionKey tm, own_property ms ''idToken''))\<rparr>)))
   \<and> (\<not> store_fails w ''idToken'' (own_property ms ''idToken'')
        \<and> \<not> store_fails w ''refreshToken'' (own_property ms ''refreshToken'')
        \<and> store_fails w ''webApiKey'' (own_property ms ''webApiKey'') \<longrightarrow>
        parseAuthDataFromUrl tm url w =
          (Inr (), console_error ''Token handling error:'' (VaultError ''VaultWriteError'')
                     (w\<lparr>disk := d,
                        vault := (vault w)(''idToken'' \<mapsto> (encryptionKey tm, own_property ms ''idToken''),
                                           ''refreshToken'' \<mapsto> (encryptionKey tm, own_property ms ''refreshToken''))\<rparr>)))
   \<and> (\<not> store_fails w ''idToken'' (own_property ms ''idToken'')
        \<and> \<not> store_fails w ''refreshToken'' (own_property ms ''refreshToken'')
        \<and> \<not> store_fails w ''webApiKey'' (own_property ms ''webApiKey'') \<longrightarrow>
        parseAuthDataFromUrl tm url w =
          (Inr (), reload
                     (w\<lparr>disk := d,
                        vault := (vault w)(''idToken'' \<mapsto> (encryptionKey tm, own_property ms ''idToken''),
                                           ''refreshToken'' \<mapsto> (encryptionKey tm, own_property ms ''refreshToken''),
                                           ''webApiKey'' \<mapsto> (encryptionKey tm, own_property ms ''webApiKey''))\<rparr>)))"
  unfolding parse_reaches_store[OF assms(1-5)]
  using assms(6)
  by (simp add: store_auth_data_def store_tokens_try_def store_field_def get_prop_def
      storeToken_def Let_def)

text \<open>
  The claim fails where only the store of \<open>idToken\<close> fails: the stores of
  \<open>refreshToken\<close> and \<open>webApiKey\<close> would succeed, yet neither secret is in the vault
  afterwards, and the console holds the one logged failure.
\<close>

theorem token_storage_continues_counterexample:
  "fst (parseAuthDataFromUrl example_tm three_tokens_url id_store_broken) = Inr ()
   \<and> \<not> store_fails id_store_broken ''refreshToken'' (JStr ''r'')
   \<and> \<not> store_fails id_store_broken ''webApiKey'' (JStr ''k'')
   \<and> \<not> hasToken example_tm ''refreshToken'' (snd (parseAuthDataFromUrl example_tm three_tokens_url id_store_broken))
   \<and> \<not> hasToken example_tm ''webApiKey'' (snd (parseAuthDataFromUrl example_tm three_tokens_url id_store_broken))
   \<and> effects (snd (parseAuthDataFromUrl example_tm three_tokens_url id_store_broken))
        = [ConsoleError ''Token handling error:'' (VaultError ''VaultWriteError'')]"
  unfolding three_store
  by (simp add: store_auth_data_def store_tokens_try_def store_field_def get_prop_def
      own_property_def storeToken_def hasToken_def Let_def id_store_broken_def
      writeFileSync_def running_def installed_def installed_disk_def fresh_install_def
      is_dir_def userInfoPath_def path_join_def console_error_def emit_def)

theorem token_storage_stops_at_first_failure_witness:
  "parseAuthDataFromUrl example_tm three_tokens_url id_store_broken =
     (Inr (), console_error ''Token handling error:'' (VaultError ''VaultWriteError'')
        (id_store_broken\<lparr>disk := (disk running)\<lparr>nodes := (nodes (disk running))
            ([''home'', ''pinac-workspace'', ''user-info.json''] \<mapsto>
               File (JSON_stringify (JObj [(''displayName'', JUndefined), (''email'', JUndefined),
                                           (''bio'', JStr []), (''photoURL'', JUndefined)])) 0x1A4)\<rparr>\<rparr>))
   \<and> parseAuthDataFromUrl example_tm three_tokens_url running =
     (Inr (), reload
        (running\<lparr>disk := (disk running)\<lparr>nodes := (nodes (disk running))
            ([''home'', ''pinac-workspace'', ''user-info.json''] \<mapsto>
               File (JSON_stringify (JObj [(''displayName'', JUndefined), (''email'', JUndefined),
                                           (''bio'', JStr []), (''photoURL'', JUndefined)])) 0x1A4)\<rparr>,
                  vault := (vault running)(''idToken'' \<mapsto> (encryptionKey example_tm, JStr ''a''),
                                           ''refreshToken'' \<mapsto> (encryptionKey example_tm, JStr ''r''),
                                           ''webApiKey'' \<mapsto> (encryptionKey example_tm, JStr ''k''))\<rparr>))"
proof -
  let ?ms = "[(''idToken'', JStr ''a''), (''refreshToken'', JStr ''r''), (''webApiKey'', JStr ''k'')]"
  let ?d = "(disk running)\<lparr>nodes := (nodes (disk running))
            ([''home'', ''pinac-workspace'', ''user-info.json''] \<mapsto>
               File (JSON_stringify (JObj [(''displayName'', JUndefined), (''email'', JUndefined),
                                           (''bio'', JStr []), (''photoURL'', JUndefined)])) 0x1A4)\<rparr>"
  have p: "own_property ?ms ''displayName'' = JUndefined" "own_property ?ms ''email'' = JUndefined"
    "own_property ?ms ''photoUrl'' = JUndefined" "own_property ?ms ''idToken'' = JStr ''a''"
    "own_property ?ms ''refreshToken'' = JStr ''r''" "own_property ?ms ''webApiKey'' = JStr ''k''"
    by (simp_all add: own_property_def)
  have w1: "writeFileSync (userInfoPath id_store_broken)
           (JSON_stringify (JObj [(''displayName'', own_property ?ms ''displayName''),
                                  (''email'', own_property ?ms ''email''),
                                  (''bio'', JStr []),
                                  (''photoURL'', own_property ?ms ''photoUrl'')]))
           0x1B6 (disk id_store_broken) = (Inr (), ?d)"
    using running_profile_write by (simp add: id_store_broken_def p userInfoPath_def)
  have w2: "writeFileSync (userInfoPath running)
           (JSON_stringify (JObj [(''displayName'', own_property ?ms ''displayName''),
                                  (''email'', own_property ?ms ''email''),
                                  (''bio'', JStr []),
                                  (''photoURL'', own_property ?ms ''photoUrl'')]))
           0x1B6 (disk running) = (Inr (), ?d)"
    using running_profile_write by (simp add: p)
  have f1: "store_fails id_store_broken ''idToken'' (JStr ''a'')"
    by (simp add: id_store_broken_def)
  have f2: "\<not> store_fails running name v" for name v
    by (simp add: running_def installed_def fresh_install_def)
  show ?thesis
    using token_storage_stops_at_first_failure
            [OF three_url_parsed three_data three_data_truthy three_decoded three_json w1, of example_tm]
          token_storage_stops_at_first_failure
            [OF three_url_parsed three_data three_data_truthy three_decoded three_json w2, of example_tm]
          f1 f2
    by (simp add: p)
qed

subsection \<open>C3: a launch that does not get the lock\<close>

text \<open>
  C3, as amended. The claim: a launch that fails to acquire the single-instance lock
  quits with no side effects; it never writes the vault and never creates or modifies
  the master-key file before quitting. The main module loads the master key before it
  requests the lock, so: the evaluation of the main module by such a launch never writes
  the vault and queues no deletion; where a node exists at the key file's path it leaves
  the disk as it is; and where the key file is absent and can be created, it creates
  the key file before it asks to quit. When the evaluation gets as far as the lock, it
  has registered the protocol client, the IPC handlers, the subscriptions to
  \<open>window-all-closed\<close> and \<open>activate\<close> and \<open>initWindow\<close> for the ready event;
  it then asks to quit, does not subscribe to \<open>second-instance\<close>, and still
  subscribes to \<open>open-url\<close>. These are all its effects and all its registrations.
\<close>

theorem secondary_launch_effects:
  assumes "\<not> lock_free w"
  shows "vault (snd (main_module pbkdf2Sync w)) = vault w
     \<and> pending_unlinks (snd (main_module pbkdf2Sync w)) = pending_unlinks w
     \<and> (existsSync (path_join (userData w) KEY_FILE_NAME) (disk w) \<longrightarrow>
          disk (snd (main_module pbkdf2Sync w)) = disk w)
     \<and> (\<forall>tm got. fst (main_module pbkdf2Sync w) = Inr (tm, got) \<longrightarrow>
          \<not> got
          \<and> effects (snd (main_module pbkdf2Sync w)) = effects (register_protocol w) @ [AppQuit]
          \<and> registered (snd (main_module pbkdf2Sync w)) = registered w @
               [HandlerModule ''registerUserHandlers'', HandlerModule ''registerFileHandlers'',
                HandlerModule ''registerAiHandlers'', HandlerModule ''registerSettingsHandlers'',
                AppOn ''window-all-closed'', AppOn ''activate'',
                IpcHandle ''check-auth'', IpcHandle ''logout'',
                WhenReadyThen ''initWindow'', AppOn ''open-url''])
     \<and> (nodes (disk w) (path_join (userData w) KEY_FILE_NAME) = None
          \<and> \<not> faulty (disk w) (path_join (userData w) KEY_FILE_NAME)
          \<and> (\<forall>q\<in>set (ancestors_and_self (userData w)).
                nodes (disk w) q = Some Dir \<or> (nodes (disk w) q = None \<and> \<not> faulty (disk w) q))
        \<longrightarrow> fst (main_module pbkdf2Sync w)
               = Inr (new_SecureTokenManager
                        (deriveMasterKey pbkdf2Sync (to_hex (map (entropy w) [0..<64])) None), False)
            \<and> nodes (disk (snd (main_module pbkdf2Sync w))) (path_join (userData w) KEY_FILE_NAME)
               = Some (File (to_hex (map (entropy w) [0..<64])) (0x180 AND NOT (umask (disk w)))))"
proof -
  let ?pre = "[HandlerModule ''registerUserHandlers'', HandlerModule ''registerFileHandlers'',
         HandlerModule ''registerAiHandlers'', HandlerModule ''registerSettingsHandlers'',
         AppOn ''window-all-closed'', AppOn ''activate'']"
  obtain r w1 where g: "getPersistentMasterKey w = (r, w1)" by (cases "getPersistentMasterKey w")
  note f = key_load_frame[OF g]
  have g': "getPersistentMasterKey (module_prelude w) = (r, w1\<lparr>registered := registered w @ ?pre\<rparr>)"
    unfolding module_prelude_eq key_load_registered using g by simp
  let ?w2 = "register (IpcHandle ''logout'') (register (IpcHandle ''check-auth'')
               (w1\<lparr>registered := registered w @ ?pre\<rparr>))"
  let ?w4 = "register (WhenReadyThen ''initWindow'') (register_protocol ?w2)"
  have nl: "\<not> lock_free ?w4" using f assms
    by (simp add: register_def register_protocol_def emit_def)
  have succ: "main_module pbkdf2Sync w
       = (Inr (new_SecureTokenManager (deriveMasterKey pbkdf2Sync k None), False),
          register (AppOn ''open-url'') (emit AppQuit (?w4\<lparr>lock_free := False\<rparr>)))"
    if "r = Inr k" for k
    using g' that nl by (simp add: main_module_def Let_def requestSingleInstanceLock_def)
  have dk: "disk (register (AppOn ''open-url'') (emit AppQuit (?w4\<lparr>lock_free := False\<rparr>))) = disk w1"
    by (simp add: register_def register_protocol_def emit_def)
  have frame: "vault (snd (main_module pbkdf2Sync w)) = vault w
     \<and> pending_unlinks (snd (main_module pbkdf2Sync w)) = pending_unlinks w
     \<and> (existsSync (path_join (userData w) KEY_FILE_NAME) (disk w) \<longrightarrow>
          disk (snd (main_module pbkdf2Sync w)) = disk w)
     \<and> (\<forall>tm got. fst (main_module pbkdf2Sync w) = Inr (tm, got) \<longrightarrow>
          \<not> got
          \<and> effects (snd (main_module pbkdf2Sync w)) = effects (register_protocol w) @ [AppQuit]
          \<and> registered (snd (main_module pbkdf2Sync w)) = registered w @
               [HandlerModule ''registerUserHandlers'', HandlerModule ''registerFileHandlers'',
                HandlerModule ''registerAiHandlers'', HandlerModule ''registerSettingsHandlers'',
                AppOn ''window-all-closed'', AppOn ''activate'',
                IpcHandle ''check-auth'', IpcHandle ''logout'',
                WhenReadyThen ''initWindow'', AppOn ''open-url''])"
  proof (cases r)
    case (Inl e)
    then have "main_module pbkdf2Sync w = (Inl e, w1\<lparr>registered := registered w @ ?pre\<rparr>)"
      using g' by (simp add: main_module_def)
    then show ?thesis using f by simp
  next
    case (Inr k)
    have e: "effects w1 = effects w" using f Inr by simp
    have fr: "vault w1 = vault w" "pending_unlinks w1 = pending_unlinks w"
      "defaultApp w1 = defaultApp w" "argv w1 = argv w"
      "existsSync (path_join (userData w) KEY_FILE_NAME) (disk w) \<longrightarrow> disk w1 = disk w"
      using f by simp_all
    show ?thesis unfolding succ[OF Inr] using e fr
      by (simp add: register_def register_protocol_def emit_def)
  qed
  have create: "nodes (disk w) (path_join (userData w) KEY_FILE_NAME) = None
          \<and> \<not> faulty (disk w) (path_join (userData w) KEY_FILE_NAME)
          \<and> (\<forall>q\<in>set (ancestors_and_self (userData w)).
                nodes (disk w) q = Some Dir \<or> (nodes (disk w) q = None \<and> \<not> faulty (disk w) q))
        \<longrightarrow> fst (main_module pbkdf2Sync w)
               = Inr (new_SecureTokenManager
                        (deriveMasterKey pbkdf2Sync (to_hex (map (entropy w) [0..<64])) None), False)
            \<and> nodes (disk (snd (main_module pbkdf2Sync w))) (path_join (userData w) KEY_FILE_NAME)
               = Some (File (to_hex (map (entropy w) [0..<64])) (0x180 AND NOT (umask (disk w))))"
  proof
    assume a: "nodes (disk w) (path_join (userData w) KEY_FILE_NAME) = None
          \<and> \<not> faulty (disk w) (path_join (userData w) KEY_FILE_NAME)
          \<and> (\<forall>q\<in>set (ancestors_and_self (userData w)).
                nodes (disk w) q = Some Dir \<or> (nodes (disk w) q = None \<and> \<not> faulty (disk w) q))"
    define key where "key = to_hex (map (entropy w) [0..<64])"
    define mode where "mode = (0x180 AND NOT (umask (disk w)))"
    from a have a1: "nodes (disk w) (path_join (userData w) KEY_FILE_NAME) = None"
      and a2: "\<not> faulty (disk w) (path_join (userData w) KEY_FILE_NAME)"
      and a3: "\<forall>q\<in>set (ancestors_and_self (userData w)).
                nodes (disk w) q = Some Dir \<or> (nodes (disk w) q = None \<and> \<not> faulty (disk w) q)"
      by blast+
    from key_file_created[OF a1 a2 a3, folded key_def mode_def] obtain w' where
      1: "getPersistentMasterKey w = (Inr key, w')"
      and 2: "nodes (disk w') (path_join (userData w) KEY_FILE_NAME) = Some (File key mode)"
      by blast
    from 1 g have r: "r = Inr key" and w: "w1 = w'" by simp_all
    have "fst (main_module pbkdf2Sync w)
               = Inr (new_SecureTokenManager (deriveMasterKey pbkdf2Sync key None), False)
            \<and> nodes (disk (snd (main_module pbkdf2Sync w))) (path_join (userData w) KEY_FILE_NAME)
               = Some (File key mode)"
      unfolding succ[OF r] snd_conv fst_conv dk using 2 w by simp
    then show "fst (main_module pbkdf2Sync w)
               = Inr (new_SecureTokenManager
                        (deriveMasterKey pbkdf2Sync (to_hex (map (entropy w) [0..<64])) None), False)
            \<and> nodes (disk (snd (main_module pbkdf2Sync w))) (path_join (userData w) KEY_FILE_NAME)
               = Some (File (to_hex (map (entropy w) [0..<64])) (0x180 AND NOT (umask (disk w))))"
      unfolding key_def mode_def .
  qed
  show ?thesis using frame create by blast
qed

text \<open>
  The claim fails for a launch that finds the lock taken and the data directory without
  a key file: the launch does not get the lock, and the key file, absent before, is on
  the disk when it asks to quit.
\<close>

theorem secondary_launch_creates_key_file_counterexample:
  "\<not> lock_free second_launch
   \<and> nodes (disk second_launch) [''home'', ''pinac-workspace'', ''app-secret.key''] = None
   \<and> fst (main_module example_kdf second_launch)
       = Inr (new_SecureTokenManager
                (deriveMasterKey example_kdf (to_hex (map (entropy second_launch) [0..<64])) None), False)
   \<and> nodes (disk (snd (main_module example_kdf second_launch)))
        [''home'', ''pinac-workspace'', ''app-secret.key'']
       = Some (File (to_hex (map (entropy second_launch) [0..<64])) 0x180)"
  by (simp add: main_module_def module_prelude_def register_def
      getPersistentMasterKey_def getPersistentMasterKey_try_def Let_def
      generateMasterKey_def randomBytes_def existsSync_def mkdirSync_recursive_def ancestors_example
      writeFileSync_def is_dir_def requestSingleInstanceLock_def register_protocol_def emit_def
      second_launch_def fresh_install_def example_disk_def path_join_def KEY_FILE_NAME_def)

theorem secondary_launch_effects_witness:
  "vault (snd (main_module example_kdf (installed\<lparr>lock_free := False\<rparr>))) = vault installed
   \<and> disk (snd (main_module example_kdf (installed\<lparr>lock_free := False\<rparr>))) = disk installed
   \<and> fst (main_module example_kdf (installed\<lparr>lock_free := False\<rparr>))
       = Inr (new_SecureTokenManager (deriveMasterKey example_kdf ''00ff17'' None), False)
   \<and> effects (snd (main_module example_kdf (installed\<lparr>lock_free := False\<rparr>)))
       = [SetAsDefaultProtocolClient ''pinac-workspace'' [], AppQuit]
   \<and> registered (snd (main_module example_kdf (installed\<lparr>lock_free := False\<rparr>)))
       = [HandlerModule ''registerUserHandlers'', HandlerModule ''registerFileHandlers'',
          HandlerModule ''registerAiHandlers'', HandlerModule ''registerSettingsHandlers'',
          AppOn ''window-all-closed'', AppOn ''activate'',
          IpcHandle ''check-auth'', IpcHandle ''logout'',
          WhenReadyThen ''initWindow'', AppOn ''open-url'']
   \<and> nodes (disk (snd (main_module example_kdf second_launch)))
        [''home'', ''pinac-workspace'', ''app-secret.key'']
       = Some (File (to_hex (map (entropy second_launch) [0..<64])) 0x180)"
proof -
  let ?W = "installed\<lparr>lock_free := False\<rparr>"
  have f: "fst (main_module example_kdf ?W)
       = Inr (new_SecureTokenManager (deriveMasterKey example_kdf ''00ff17'' None), False)"
    using main_module_key[of ?W "'' 00ff17 ''" "0x180" example_kdf] trim_example
    by (simp add: installed_def installed_disk_def fresh_install_def path_join_def KEY_FILE_NAME_def)
  have rp: "effects (register_protocol ?W) = [SetAsDefaultProtocolClient ''pinac-workspace'' []]"
    by (simp add: register_protocol_def emit_def installed_def fresh_install_def)
  have rg: "registered ?W = []" by (simp add: installed_def fresh_install_def)
  have h1: "\<not> lock_free ?W" by simp
  have ex: "existsSync (path_join (userData ?W) KEY_FILE_NAME) (disk ?W)"
    by (simp add: existsSync_def installed_def installed_disk_def fresh_install_def path_join_def KEY_FILE_NAME_def)
  have A: "vault (snd (main_module example_kdf ?W)) = vault installed
   \<and> disk (snd (main_module example_kdf ?W)) = disk installed
   \<and> effects (snd (main_module example_kdf ?W))
       = [SetAsDefaultProtocolClient ''pinac-workspace'' [], AppQuit]
   \<and> registered (snd (main_module example_kdf ?W))
       = [HandlerModule ''registerUserHandlers'', HandlerModule ''registerFileHandlers'',
          HandlerModule ''registerAiHandlers'', HandlerModule ''registerSettingsHandlers'',
          AppOn ''window-all-closed'', AppOn ''activate'',
          IpcHandle ''check-auth'', IpcHandle ''logout'',
          WhenReadyThen ''initWindow'', AppOn ''open-url'']"
    using secondary_launch_effects[OF h1, of example_kdf] ex f rp rg by auto
  have h2: "\<not> lock_free second_launch" by (simp add: second_launch_def)
  have m: "(0x180 :: 16 word) AND NOT (umask (disk second_launch)) = 0x180"
    by (simp add: second_launch_def fresh_install_def example_disk_def)
  have kp: "path_join (userData second_launch) KEY_FILE_NAME = [''home'', ''pinac-workspace'', ''app-secret.key'']"
    by (simp add: second_launch_def fresh_install_def path_join_def KEY_FILE_NAME_def)
  have ab: "nodes (disk second_launch) [''home'', ''pinac-workspace'', ''app-secret.key''] = None
          \<and> \<not> faulty (disk second_launch) [''home'', ''pinac-workspace'', ''app-secret.key'']
          \<and> (\<forall>q\<in>set (ancestors_and_self (userData second_launch)).
                nodes (disk second_launch) q = Some Dir
                \<or> (nodes (disk second_launch) q = None \<and> \<not> faulty (disk second_launch) q))"
    using ancestors_example by (simp add: second_launch_def fresh_install_def example_disk_def)
  have B: "nodes (disk (snd (main_module example_kdf second_launch)))
        [''home'', ''pinac-workspace'', ''app-secret.key'']
       = Some (File (to_hex (map (entropy second_launch) [0..<64])) 0x180)"
    using secondary_launch_effects[OF h2, of example_kdf] ab unfolding kp m by blast
  show ?thesis using A B f by blast
qed

subsection \<open>C4: the end-to-end scenario\<close>

text \<open>
  C4. For the callback URL
  \<open>appname://auth?data=%7B%22displayName%22%3A%22Jane%22%2C%22idToken%22%3A%22abc%22%7D\<close>,
  where the profile file can be written and the store of \<open>idToken\<close> does not fail,
  the handler returns normally; the profile file then holds JSON text whose
  \<open>displayName\<close> is \<open>Jane\<close>; \<open>hasToken("idToken")\<close> is true; and
  \<open>retrieveToken("idToken")\<close> gives \<open>abc\<close>. This holds whether or not the stores of
  the two absent secrets fail.
\<close>

theorem callback_end_to_end:
  assumes dir: "is_dir (disk w) (userData w)"
    and reg: "nodes (disk w) (userInfoPath w) \<noteq> Some Dir"
    and nf: "\<not> faulty (disk w) (userInfoPath w)"
    and st: "\<not> store_fails w ''idToken'' (JStr ''abc'')"
  shows "fst (parseAuthDataFromUrl tm jane_url w) = Inr ()
     \<and> (\<exists>content m profile.
           nodes (disk (snd (parseAuthDataFromUrl tm jane_url w))) (userInfoPath w) = Some (File content m)
           \<and> JSON_parse content = Inr profile
           \<and> get_prop profile ''displayName'' = Inr (JStr ''Jane''))
     \<and> hasToken tm ''idToken'' (snd (parseAuthDataFromUrl tm jane_url w))
     \<and> retrieveToken tm ''idToken'' (snd (parseAuthDataFromUrl tm jane_url w)) = Inr (Some (JStr ''abc''))"
proof -
  let ?content = "JSON_stringify (JObj [(''displayName'', JStr ''Jane''), (''email'', JUndefined),
                                (''bio'', JStr []), (''photoURL'', JUndefined)])"
  have p: "userInfoPath w \<noteq> []" "butlast (userInfoPath w) = userData w"
    by (simp_all add: userInfoPath_def path_join_def)
  from write_profile_ok[of "disk w" "userInfoPath w" ?content "0x1B6"] dir reg nf p
  obtain m where wr: "writeFileSync (userInfoPath w) ?content 0x1B6 (disk w)
      = (Inr (), (disk w)\<lparr>nodes := (nodes (disk w))(userInfoPath w \<mapsto> File ?content m)\<rparr>)"
    by auto
  have prof: "get_prop (JObj [(''displayName'', JStr ''Jane''), (''bio'', JStr [])]) ''displayName''
                = Inr (JStr ''Jane'')"
    by (simp add: get_prop_def own_property_def)
  show ?thesis
    unfolding jane_store
    using wr st prof jane_profile_text
    by (simp add: store_auth_data_def store_tokens_try_def store_field_def get_prop_def
        own_property_def storeToken_def hasToken_def retrieveToken_def console_error_def emit_def
        reload_def Let_def userInfoPath_def split: option.splits)
qed

theorem callback_end_to_end_witness:
  "fst (parseAuthDataFromUrl example_tm jane_url running) = Inr ()
     \<and> (\<exists>content m profile.
           nodes (disk (snd (parseAuthDataFromUrl example_tm jane_url running)))
             [''home'', ''pinac-workspace'', ''user-info.json''] = Some (File content m)
           \<and> JSON_parse content = Inr profile
           \<and> get_prop profile ''displayName'' = Inr (JStr ''Jane''))
     \<and> hasToken example_tm ''idToken'' (snd (parseAuthDataFromUrl example_tm jane_url running))
     \<and> retrieveToken example_tm ''idToken'' (snd (parseAuthDataFromUrl example_tm jane_url running))
          = Inr (Some (JStr ''abc''))"
  using callback_end_to_end[of running example_tm]
  by (simp add: running_def installed_def installed_disk_def fresh_install_def is_dir_def
      userInfoPath_def path_join_def)

subsection \<open>C5: the derivation is deterministic\<close>



subsection \<open>C6: reading or creating the master key\<close>

text \<open>
  C6. Where the key file is a readable regular file with well-formed UTF-8 content,
  \<open>getPersistentMasterKey\<close> returns the content trimmed of white space (byte order
  mark included) and changes nothing. Where the key file is absent and directory and
  file can be created, it draws 64 bytes from the random source and returns their hex
  text as the new key: 128 characters, each a lowercase hex digit, from which the 64
  bytes can be read back. Afterwards the data directory exists, the key file holds the
  key with mode \<open>0o600\<close> less the umask, which has no bit of group or others, no
  other path outside the directory chain has changed, the random source has advanced by
  64 bytes, and a second call returns the same key.
\<close>

theorem getPersistentMasterKey_reads_or_creates:
  "(nodes (disk w) (path_join (userData w) KEY_FILE_NAME) = Some (File content m)
      \<and> \<not> faulty (disk w) (path_join (userData w) KEY_FILE_NAME)
      \<and> utf8_valid content
     \<longrightarrow> getPersistentMasterKey w = (Inr (trim content), w))
   \<and>
   (nodes (disk w) (path_join (userData w) KEY_FILE_NAME) = None
      \<and> \<not> faulty (disk w) (path_join (userData w) KEY_FILE_NAME)
      \<and> (\<forall>q\<in>set (ancestors_and_self (userData w)).
            nodes (disk w) q = Some Dir \<or> (nodes (disk w) q = None \<and> \<not> faulty (disk w) q))
     \<longrightarrow> (\<exists>w'. getPersistentMasterKey w = (Inr (to_hex (map (entropy w) [0..<64])), w')
          \<and> nodes (disk w') (path_join (userData w) KEY_FILE_NAME)
              = Some (File (to_hex (map (entropy w) [0..<64])) (0x180 AND NOT (umask (disk w))))
          \<and> (0x180 AND NOT (umask (disk w))) AND 0x3F = 0
          \<and> is_dir (disk w') (userData w)
          \<and> (\<forall>q. q \<noteq> path_join (userData w) KEY_FILE_NAME
                  \<and> q \<notin> set (ancestors_and_self (userData w))
                \<longrightarrow> nodes (disk w') q = nodes (disk w) q)
          \<and> vault w' = vault w \<and> effects w' = effects w
          \<and> getPersistentMasterKey w' = (Inr (to_hex (map (entropy w) [0..<64])), w')
          \<and> entropy w' = (\<lambda>i. entropy w (i + 64)))
        \<and> length (to_hex (map (entropy w) [0..<64])) = 128
        \<and> set (to_hex (map (entropy w) [0..<64])) \<subseteq> set ''0123456789abcdef''
        \<and> (\<forall>bytes. to_hex bytes = to_hex (map (entropy w) [0..<64])
              \<longrightarrow> bytes = map (entropy w) [0..<64]))"
proof (intro conjI impI)
  assume "nodes (disk w) (path_join (userData w) KEY_FILE_NAME) = Some (File content m)
      \<and> \<not> faulty (disk w) (path_join (userData w) KEY_FILE_NAME)
      \<and> utf8_valid content"
  then show "getPersistentMasterKey w = (Inr (trim content), w)"
    using key_file_read by blast
next
  assume a: "nodes (disk w) (path_join (userData w) KEY_FILE_NAME) = None
      \<and> \<not> faulty (disk w) (path_join (userData w) KEY_FILE_NAME)
      \<and> (\<forall>q\<in>set (ancestors_and_self (userData w)).
            nodes (disk w) q = Some Dir \<or> (nodes (disk w) q = None \<and> \<not> faulty (disk w) q))"
  then show "\<exists>w'. getPersistentMasterKey w = (Inr (to_hex (map (entropy w) [0..<64])), w')
          \<and> nodes (disk w') (path_join (userData w) KEY_FILE_NAME)
              = Some (File (to_hex (map (entropy w) [0..<64])) (0x180 AND NOT (umask (disk w))))
          \<and> (0x180 AND NOT (umask (disk w))) AND 0x3F = 0
          \<and> is_dir (disk w') (userData w)
          \<and> (\<forall>q. q \<noteq> path_join (userData w) KEY_FILE_NAME
                  \<and> q \<notin> set (ancestors_and_self (userData w))
                \<longrightarrow> nodes (disk w') q = nodes (disk w) q)
          \<and> vault w' = vault w \<and> effects w' = effects w
          \<and> getPersistentMasterKey w' = (Inr (to_hex (map (entropy w) [0..<64])), w')
          \<and> entropy w' = (\<lambda>i. entropy w (i + 64))"
    by (intro key_file_created) simp_all
next
  show "length (to_hex (map (entropy w) [0..<64])) = 128"
    by (simp add: length_to_hex)
next
  show "set (to_hex (map (entropy w) [0..<64])) \<subseteq> set ''0123456789abcdef''"
    by (rule to_hex_lower)
next
  show "\<forall>bytes. to_hex bytes = to_hex (map (entropy w) [0..<64])
              \<longrightarrow> bytes = map (entropy w) [0..<64]"
    using to_hex_inj by blast
qed

theorem getPersistentMasterKey_reads_or_creates_witness:
  "getPersistentMasterKey installed = (Inr ''00ff17'', installed)
   \<and> getPersistentMasterKey bom_key = (Inr ''00ff17'', bom_key)
   \<and> (\<exists>w'. getPersistentMasterKey fresh_install
          = (Inr ''030a11181f262d343b424950575e656c737a81888f969da4abb2b9c0c7ced5dce3eaf1f8ff060d141b222930373e454c535a61686f767d848b9299a0a7aeb5bc'', w')
        \<and> nodes (disk w') [''home'', ''pinac-workspace'', ''app-secret.key'']
             = Some (File ''030a11181f262d343b424950575e656c737a81888f969da4abb2b9c0c7ced5dce3eaf1f8ff060d141b222930373e454c535a61686f767d848b9299a0a7aeb5bc'' 0x180)
        \<and> is_dir (disk w') [''home'', ''pinac-workspace'']
        \<and> getPersistentMasterKey w'
          = (Inr ''030a11181f262d343b424950575e656c737a81888f969da4abb2b9c0c7ced5dce3eaf1f8ff060d141b222930373e454c535a61686f767d848b9299a0a7aeb5bc'', w'))"
proof -
  have m: "(0x180 :: 16 word) AND NOT 0x12 = 0x180" by simp
  have 1: "getPersistentMasterKey installed = (Inr ''00ff17'', installed)"
    using getPersistentMasterKey_reads_or_creates[of installed "'' 00ff17 ''" "0x180"]
      trim_example utf8_examples(1)
    by (simp add: installed_def installed_disk_def fresh_install_def path_join_def KEY_FILE_NAME_def)
  have 2: "getPersistentMasterKey bom_key = (Inr ''00ff17'', bom_key)"
    using getPersistentMasterKey_reads_or_creates
            [of bom_key "[CHR 0xEF, CHR 0xBB, CHR 0xBF] @ ''00ff17'' @ [CHR 0x0A]" "0x180"]
      trim_bom_example utf8_examples(2)
    by (simp add: bom_key_def installed_def installed_disk_def fresh_install_def path_join_def KEY_FILE_NAME_def)
  have 3: "\<exists>w'. getPersistentMasterKey fresh_install = (Inr (to_hex (map (entropy fresh_install) [0..<64])), w')
        \<and> nodes (disk w') [''home'', ''pinac-workspace'', ''app-secret.key'']
             = Some (File (to_hex (map (entropy fresh_install) [0..<64])) 0x180)
        \<and> is_dir (disk w') [''home'', ''pinac-workspace'']
        \<and> getPersistentMasterKey w' = (Inr (to_hex (map (entropy fresh_install) [0..<64])), w')"
    using getPersistentMasterKey_reads_or_creates[of fresh_install] m ancestors_example
    by (simp add: fresh_install_def example_disk_def path_join_def KEY_FILE_NAME_def) blast
  show ?thesis using 1 2 3 unfolding fresh_key by blast
qed

subsection \<open>C7: a failure of the key storage is thrown\<close>

text \<open>
  C7. When the key file exists and cannot be read, or is absent and the directory cannot
  be created or the file cannot be written, \<open>getPersistentMasterKey\<close> logs the cause and
  throws \<open>Error("Could not generate or retrieve master key")\<close>. The exception ends the
  evaluation of the main module: no token manager is built, the lock is not requested,
  and the vault is untouched.
\<close>

theorem getPersistentMasterKey_failure_thrown:
  assumes "(existsSync (path_join (userData w) KEY_FILE_NAME) (disk w)
             \<and> readFileSync (path_join (userData w) KEY_FILE_NAME) (disk w) = Inl cause)
         \<or> (\<not> existsSync (path_join (userData w) KEY_FILE_NAME) (disk w)
             \<and> fst (mkdirSync_recursive (userData w) (disk w)) = Inl cause)
         \<or> (\<not> existsSync (path_join (userData w) KEY_FILE_NAME) (disk w)
             \<and> fst (mkdirSync_recursive (userData w) (disk w)) = Inr ()
             \<and> fst (writeFileSync (path_join (userData w) KEY_FILE_NAME)
                      (to_hex (map (entropy w) [0..<64])) 0x180
                      (snd (mkdirSync_recursive (userData w) (disk w)))) = Inl cause)"
  shows "fst (getPersistentMasterKey w) = Inl (PlainError ''Could not generate or retrieve master key'')
       \<and> effects (snd (getPersistentMasterKey w))
           = effects w @ [ConsoleError ''Failed to manage master key:'' cause]
       \<and> fst (main_module pbkdf2Sync w) = Inl (PlainError ''Could not generate or retrieve master key'')
       \<and> effects (snd (main_module pbkdf2Sync w))
           = effects w @ [ConsoleError ''Failed to manage master key:'' cause]
       \<and> lock_free (snd (main_module pbkdf2Sync w)) = lock_free w
       \<and> vault (snd (main_module pbkdf2Sync w)) = vault w"
proof -
  have g: "fst (getPersistentMasterKey w) = Inl (PlainError ''Could not generate or retrieve master key'')
       \<and> effects (snd (getPersistentMasterKey w))
           = effects w @ [ConsoleError ''Failed to manage master key:'' cause]"
    using assms
    by (auto simp: getPersistentMasterKey_def getPersistentMasterKey_try_def Let_def
        generateMasterKey_def randomBytes_def console_error_def emit_def
        split: prod.splits sum.splits)
  obtain r w1 where k: "getPersistentMasterKey w = (r, w1)" by (cases "getPersistentMasterKey w")
  note f = key_load_frame[OF k]
  have m: "fst (main_module pbkdf2Sync w) = Inl (PlainError ''Could not generate or retrieve master key'')
       \<and> effects (snd (main_module pbkdf2Sync w))
           = effects w @ [ConsoleError ''Failed to manage master key:'' cause]
       \<and> lock_free (snd (main_module pbkdf2Sync w)) = lock_free w
       \<and> vault (snd (main_module pbkdf2Sync w)) = vault w"
    unfolding main_module_def module_prelude_eq key_load_registered
    using g k f by simp
  show ?thesis using g m by blast
qed

theorem getPersistentMasterKey_failure_thrown_witness:
  "fst (getPersistentMasterKey unreadable_key) = Inl (PlainError ''Could not generate or retrieve master key'')
   \<and> effects (snd (getPersistentMasterKey unreadable_key))
       = [ConsoleError ''Failed to manage master key:'' (SystemError ''EACCES'')]
   \<and> fst (main_module example_kdf unreadable_key) = Inl (PlainError ''Could not generate or retrieve master key'')
   \<and> vault (snd (main_module example_kdf unreadable_key)) = vault unreadable_key"
  using getPersistentMasterKey_failure_thrown[of unreadable_key "SystemError ''EACCES''" example_kdf]
  by (simp add: unreadable_key_def installed_def installed_disk_def fresh_install_def
      path_join_def KEY_FILE_NAME_def existsSync_def readFileSync_def)

subsection \<open>C8: logout\<close>

text \<open>
  C8, as amended. The claim: logout deletes the profile file and clears the vault, returns
  true on success and false, logging the cause, on any failure; after a logout that
  returned true, \<open>checkAuth\<close> does not report authenticated. The code hands the deletion
  of the profile file to \<open>fs.unlink\<close> with a callback that drops the outcome, and
  \<open>clearAllTokens\<close> is best effort, so: logout queues the deletion of the profile file
  and asks the token manager to clear the vault; it returns false, logging the cause,
  exactly when \<open>clearAllTokens\<close> throws, and true otherwise, whatever becomes of the
  profile file and of single entries; after a logout that returned true a token is
  present exactly when it was present before and its deletion failed, so \<open>check_auth\<close>
  is false unless the deletion of the \<open>idToken\<close> entry failed, and no token is
  present when no deletion failed; and once the queued deletions have run the profile
  file is gone, provided the path is not a directory and the deletion is not refused.
\<close>

theorem logout_outcome:
  "pending_unlinks (snd (logout tm w)) = pending_unlinks w @ [userInfoPath w]
   \<and> (clear_fails w \<longrightarrow>
        fst (logout tm w) = False
        \<and> effects (snd (logout tm w))
            = effects w @ [ConsoleError ''Logout failed'' (VaultError ''VaultClearError'')]
        \<and> vault (snd (logout tm w)) = vault w)
   \<and> (\<not> clear_fails w \<longrightarrow>
        fst (logout tm w) = True
        \<and> effects (snd (logout tm w))
            = effects w @ map (\<lambda>name. ConsoleError ''Failed to delete token:'' (VaultError name))
                            (filter (\<lambda>name. vault w name \<noteq> None) (remdups (undeletable w))))
   \<and> (fst (logout tm w) = True \<longrightarrow>
        (\<forall>name. hasToken tm name (snd (logout tm w))
                  = (hasToken tm name w \<and> name \<in> set (undeletable w)))
        \<and> check_auth tm (snd (logout tm w))
            = (check_auth tm w \<and> ''idToken'' \<in> set (undeletable w))
        \<and> check_auth tm (run_pending_unlinks (snd (logout tm w)))
            = (check_auth tm w \<and> ''idToken'' \<in> set (undeletable w))
        \<and> (undeletable w = [] \<longrightarrow>
             effects (snd (logout tm w)) = effects w
             \<and> (\<forall>name. \<not> hasToken tm name (snd (logout tm w)))))
   \<and> (\<not> faulty (disk w) (userInfoPath w) \<and> nodes (disk w) (userInfoPath w) \<noteq> Some Dir \<longrightarrow>
        nodes (disk (run_pending_unlinks (snd (logout tm w)))) (userInfoPath w) = None)"
proof -
  have d: "disk (snd (logout tm w)) = disk w"
    by (simp add: logout_def fs_unlink_def clearAllTokens_def fold_console_error
        console_error_def emit_def Let_def)
  have p: "pending_unlinks (snd (logout tm w)) = pending_unlinks w @ [userInfoPath w]"
    by (simp add: logout_def fs_unlink_def clearAllTokens_def fold_console_error
        console_error_def emit_def Let_def)
  have del: "\<not> faulty (disk w) (userInfoPath w) \<and> nodes (disk w) (userInfoPath w) \<noteq> Some Dir \<longrightarrow>
        nodes (disk (run_pending_unlinks (snd (logout tm w)))) (userInfoPath w) = None"
    using fold_unlink_nodes[of "pending_unlinks w @ [userInfoPath w]" "disk w"]
    by (auto simp: run_pending_unlinks_def d p simp del: fold_append)
  have rest: "(clear_fails w \<longrightarrow>
        fst (logout tm w) = False
        \<and> effects (snd (logout tm w))
            = effects w @ [ConsoleError ''Logout failed'' (VaultError ''VaultClearError'')]
        \<and> vault (snd (logout tm w)) = vault w)
   \<and> (\<not> clear_fails w \<longrightarrow>
        fst (logout tm w) = True
        \<and> effects (snd (logout tm w))
            = effects w @ map (\<lambda>name. ConsoleError ''Failed to delete token:'' (VaultError name))
                            (filter (\<lambda>name. vault w name \<noteq> None) (remdups (undeletable w))))
   \<and> (fst (logout tm w) = True \<longrightarrow>
        (\<forall>name. hasToken tm name (snd (logout tm w))
                  = (hasToken tm name w \<and> name \<in> set (undeletable w)))
        \<and> check_auth tm (snd (logout tm w))
            = (check_auth tm w \<and> ''idToken'' \<in> set (undeletable w))
        \<and> check_auth tm (run_pending_unlinks (snd (logout tm w)))
            = (check_auth tm w \<and> ''idToken'' \<in> set (undeletable w))
        \<and> (undeletable w = [] \<longrightarrow>
             effects (snd (logout tm w)) = effects w
             \<and> (\<forall>name. \<not> hasToken tm name (snd (logout tm w)))))"
    by (auto simp: logout_def fs_unlink_def clearAllTokens_def fold_console_error
        console_error_def emit_def Let_def check_auth_def hasToken_def run_pending_unlinks_def)
  show ?thesis using p del rest by blast
qed

text \<open>
  The claim fails where the operating system refuses to delete the profile file: logout
  returns true and logs nothing, and after the queued deletion has run the profile file
  is still on the disk.
\<close>

theorem logout_true_with_profile_left_counterexample:
  "fst (logout example_tm locked_profile) = True
   \<and> effects (snd (logout example_tm locked_profile)) = []
   \<and> nodes (disk (run_pending_unlinks (snd (logout example_tm locked_profile))))
        [''home'', ''pinac-workspace'', ''user-info.json''] = Some (File ''{}'' 0x1A4)"
  by (simp add: logout_def fs_unlink_def clearAllTokens_def Let_def run_pending_unlinks_def
      unlink_now_def locked_profile_def logged_in_def logged_in_disk_def running_def
      installed_def fresh_install_def userInfoPath_def path_join_def)

theorem logout_outcome_witness:
  "fst (logout example_tm logged_in) = True
   \<and> check_auth example_tm logged_in
   \<and> \<not> check_auth example_tm (snd (logout example_tm logged_in))
   \<and> nodes (disk logged_in) [''home'', ''pinac-workspace'', ''user-info.json''] = Some (File ''{}'' 0x1A4)
   \<and> nodes (disk (run_pending_unlinks (snd (logout example_tm logged_in))))
        [''home'', ''pinac-workspace'', ''user-info.json''] = None
   \<and> fst (logout example_tm stuck_token) = True
   \<and> check_auth example_tm (snd (logout example_tm stuck_token))
   \<and> effects (snd (logout example_tm stuck_token))
        = [ConsoleError ''Failed to delete token:'' (VaultError ''idToken'')]
   \<and> fst (logout example_tm (logged_in\<lparr>clear_fails := True\<rparr>)) = False
   \<and> effects (snd (logout example_tm (logged_in\<lparr>clear_fails := True\<rparr>)))
        = [ConsoleError ''Logout failed'' (VaultError ''VaultClearError'')]"
  using logout_outcome[of example_tm logged_in]
        logout_outcome[of example_tm stuck_token]
        logout_outcome[of example_tm "logged_in\<lparr>clear_fails := True\<rparr>"]
  by (simp add: stuck_token_def logged_in_def logged_in_disk_def running_def installed_def
      fresh_install_def userInfoPath_def path_join_def check_auth_def hasToken_def)

subsection \<open>C9: the second-instance event\<close>

text \<open>
  C9, as amended. The claim: on a second-instance event the primary instance takes the last
  command-line argument, forwards it to the callback handler and then restores and
  focuses the window, in that order; without an argument it shows the failure dialog.
  The code has the other order: it first restores the window if it is minimised and
  focuses it, if there is a window; then it takes the last argument and runs the
  callback handler on it, or shows the failure dialog when there is no argument or the
  argument is the empty string. Every effect of the handler or the dialog comes after
  the window's.
\<close>

theorem second_instance_focus_then_forward:
  "(commandLine \<noteq> [] \<and> last commandLine \<noteq> [] \<longrightarrow>
      second_instance tm commandLine w
        = parseAuthDataFromUrl tm (last commandLine) (restore_and_focus w))
   \<and> (commandLine = [] \<or> last commandLine = [] \<longrightarrow>
      second_instance tm commandLine w
        = (Inr (), showErrorBox ''Error''
             ''Something went wrong, unable to authenticate. Please try again.''
             (restore_and_focus w)))
   \<and> effects (restore_and_focus w) = effects w @
        (case mainWindow w of
           None \<Rightarrow> []
         | Some win \<Rightarrow> (if minimized win then [WindowRestore] else []) @ [WindowFocus])
   \<and> (\<exists>later. effects (snd (second_instance tm commandLine w))
                 = effects (restore_and_focus w) @ later)"
proof -
  have a: "commandLine \<noteq> [] \<and> last commandLine \<noteq> [] \<longrightarrow>
      second_instance tm commandLine w
        = parseAuthDataFromUrl tm (last commandLine) (restore_and_focus w)"
    by (cases commandLine) (simp_all add: second_instance_def Let_def)
  have b: "commandLine = [] \<or> last commandLine = [] \<longrightarrow>
      second_instance tm commandLine w
        = (Inr (), showErrorBox ''Error''
             ''Something went wrong, unable to authenticate. Please try again.''
             (restore_and_focus w))"
    by (cases commandLine) (simp_all add: second_instance_def Let_def)
  have c: "\<exists>later. effects (snd (second_instance tm commandLine w))
                 = effects (restore_and_focus w) @ later"
  proof (cases "commandLine \<noteq> [] \<and> last commandLine \<noteq> []")
    case True
    then show ?thesis using a parse_effects[of tm "last commandLine" "restore_and_focus w"] by simp
  next
    case False
    then show ?thesis using b by (auto simp: showErrorBox_def emit_def)
  qed
  show ?thesis using a b c restore_and_focus_effects by blast
qed

text \<open>
  The claim fails on the order: with the window minimised and a callback URL that
  carries all three secrets as last argument, the window is restored and focused before
  the handler's reload, not after it.
\<close>

theorem second_instance_order_counterexample:
  "effects (snd (second_instance example_tm [''pinac-workspace'', three_tokens_url] running))
     = [WindowRestore, WindowFocus, WindowReload]"
proof -
  have l: "last [''pinac-workspace'', three_tokens_url] = three_tokens_url" by simp
  have n: "three_tokens_url \<noteq> []" by (simp add: three_tokens_url_def)
  show ?thesis
    unfolding second_instance_def Let_def list.case l if_P[OF n] three_store
    by (simp add: store_auth_data_def store_tokens_try_def store_field_def get_prop_def
      own_property_def storeToken_def Let_def restore_and_focus_def reload_def
      writeFileSync_def running_def installed_def installed_disk_def fresh_install_def
      is_dir_def userInfoPath_def path_join_def console_error_def emit_def)
qed

theorem second_instance_focus_then_forward_witness:
  "second_instance example_tm [''pinac-workspace'', three_tokens_url] running
        = parseAuthDataFromUrl example_tm three_tokens_url (restore_and_focus running)
   \<and> second_instance example_tm [] running
        = (Inr (), showErrorBox ''Error''
             ''Something went wrong, unable to authenticate. Please try again.''
             (restore_and_focus running))
   \<and> effects (restore_and_focus running) = [WindowRestore, WindowFocus]
   \<and> (\<exists>later. effects (snd (second_instance example_tm [''pinac-workspace'', three_tokens_url] running))
                 = [WindowRestore, WindowFocus] @ later)"
proof -
  have n: "three_tokens_url \<noteq> []" by (simp add: three_tokens_url_def)
  have e: "effects running = []" "mainWindow running = Some \<lparr>minimized = True, focused = False\<rparr>"
    by (simp_all add: running_def installed_def fresh_install_def)
  show ?thesis
    using second_instance_focus_then_forward[of "[''pinac-workspace'', three_tokens_url]" example_tm running]
      second_instance_focus_then_forward[of "[]" example_tm running] n e
    by auto
qed

subsection \<open>C10: the empty salt\<close>

text \<open>
  C10. For every master key, \<open>deriveMasterKey\<close> with the empty string as salt gives
  the derived key it gives with no salt and with the salt \<open>default-app-salt\<close>: the
  empty salt is replaced by the default and never yields a key of its own.
\<close>

theorem deriveMasterKey_empty_salt:
  "deriveMasterKey pbkdf2Sync masterKey (Some []) = deriveMasterKey pbkdf2Sync masterKey None
   \<and> deriveMasterKey pbkdf2Sync masterKey (Some [])
       = deriveMasterKey pbkdf2Sync masterKey (Some ''default-app-salt'')"
  by (simp add: deriveMasterKey_def)

end
